theory Spec2Isabelle
  imports Main
begin

section \<open>Values of the editor host\<close>

text \<open>
  A setting read with \<open>workspace.getConfiguration(section).get(key)\<close> is a JSON value or
  \<open>undefined\<close>; \<open>undefined\<close> is \<open>None\<close>. Numbers are modelled as integers (the manifest
  declares \<open>threadCount\<close> as a number with minimum 1).
\<close>

datatype ConfigValue = CString string | CNumber int | CBool bool | CNull

text \<open>JavaScript truthiness, as used by \<open>!x\<close> and \<open>x ? a : b\<close>.\<close>

fun truthy :: "ConfigValue option \<Rightarrow> bool" where
  "truthy None = False"
| "truthy (Some CNull) = False"
| "truthy (Some (CBool b)) = b"
| "truthy (Some (CNumber n)) = (n \<noteq> 0)"
| "truthy (Some (CString s)) = (s \<noteq> [])"

fun digitsOf :: "nat \<Rightarrow> string" where
  "digitsOf n =
     (if n < 10 then [char_of (48 + n)]
      else digitsOf (n div 10) @ [char_of (48 + n mod 10)])"

text \<open>String conversion of a value in \<open>'-j ' + ccThreads\<close>.\<close>

fun jsToString :: "ConfigValue \<Rightarrow> string" where
  "jsToString (CString s) = s"
| "jsToString (CNumber n) = (if n < 0 then ''-'' @ digitsOf (nat (- n)) else digitsOf (nat n))"
| "jsToString (CBool b) = (if b then ''true'' else ''false'')"
| "jsToString CNull = ''null''"

text \<open>\<open>Array.prototype.join\<close> on strings.\<close>

fun joinWith :: "string \<Rightarrow> string list \<Rightarrow> string" where
  "joinWith sep [] = []"
| "joinWith sep [x] = x"
| "joinWith sep (x # y # ys) = x @ sep @ joinWith sep (y # ys)"

section \<open>The executor manager\<close>

text \<open>
  Modelled from the spec: the executor manager (\<open>ExtensionApi.executorManager\<close>), its
  \<open>ScheduledProcess\<close> and \<open>ProcessType\<close> are imported by \<open>bridge.ts\<close> but are not among the
  source files. The definitions of this section follow sections 3 to 5 of the
  specification: a scheduled unit carries a command line and a tag, the queue has an ordered
  \<open>pending\<close> sequence (the field \<open>queue\<close>) and one \<open>active\<close> slot (the field
  \<open>activeProcess\<close>, the name \<open>bridge.ts\<close> reads), and the process runner owns the handles of
  the child processes that are alive (the field \<open>live\<close>).
\<close>

datatype ProcessType = analyze | logGeneration | otherKind

record ScheduledProcess =
  commandLine :: string
  processType :: ProcessType

datatype QueueMethod = Replace | Prepend | Append

datatype Outcome = exitedNormally int | exitedViaSignal | cancelled | spawnFailed

record ProcessHandle =
  pid :: nat
  unit :: ScheduledProcess
  cancelRequested :: bool

record ExecutorManager =
  queue :: "ScheduledProcess list"
  activeProcess :: "ScheduledProcess option"
  live :: "ProcessHandle list"
  nextPid :: nat
  spawnable :: "string \<Rightarrow> bool"
  outcomes :: "(ScheduledProcess \<times> Outcome) list"

text \<open>
  Modelled from the spec: \<open>enqueue(unit, policy)\<close> of section 4.3. \<open>append\<close> places the unit
  at the tail, \<open>prepend\<close> at the head, \<open>replaceAll\<close> discards every pending unit and makes
  the new one the sole entry.
\<close>

definition enqueue :: "ScheduledProcess \<Rightarrow> QueueMethod \<Rightarrow> ExecutorManager \<Rightarrow> ExecutorManager" where
  "enqueue u policy m =
     (case policy of
        Append \<Rightarrow> m\<lparr>queue := queue m @ [u]\<rparr>
      | Prepend \<Rightarrow> m\<lparr>queue := u # queue m\<rparr>
      | Replace \<Rightarrow> m\<lparr>queue := [u]\<rparr>)"

text \<open>Modelled from the spec: \<open>clearByTag(tag)\<close> of section 4.3.\<close>

definition clearByTag :: "ProcessType \<Rightarrow> ExecutorManager \<Rightarrow> ExecutorManager" where
  "clearByTag tag m = m\<lparr>queue := filter (\<lambda>u. processType u \<noteq> tag) (queue m)\<rparr>"

text \<open>
  Modelled from the spec: \<open>takeNext()\<close> of section 4.3 removes and returns the head of
  \<open>pending\<close> if and only if \<open>active\<close> is empty.
\<close>

definition takeNext :: "ExecutorManager \<Rightarrow> (ScheduledProcess \<times> ExecutorManager) option" where
  "takeNext m =
     (case activeProcess m of
        Some a \<Rightarrow> None
      | None \<Rightarrow> (case queue m of [] \<Rightarrow> None | u # rest \<Rightarrow> Some (u, m\<lparr>queue := rest\<rparr>)))"

text \<open>Modelled from the spec: \<open>markActive(unit)\<close> and \<open>clearActive()\<close> of section 4.3.\<close>

definition markActive :: "ScheduledProcess \<Rightarrow> ExecutorManager \<Rightarrow> ExecutorManager" where
  "markActive u m = m\<lparr>activeProcess := Some u\<rparr>"

definition clearActive :: "ExecutorManager \<Rightarrow> ExecutorManager" where
  "clearActive m = m\<lparr>activeProcess := None\<rparr>"

text \<open>
  Modelled from the spec: \<open>start(unit)\<close> of section 4.2. A command line the operating system
  can start yields a handle of a process that is now alive; one it cannot start yields no
  process (the \<open>spawnFailed\<close> completion follows as an event of its own).
\<close>

definition start :: "ScheduledProcess \<Rightarrow> ExecutorManager \<Rightarrow> ExecutorManager" where
  "start u m =
     (if spawnable m (commandLine u)
      then m\<lparr>live := live m @ [\<lparr>pid = nextPid m, unit = u, cancelRequested = False\<rparr>],
              nextPid := Suc (nextPid m)\<rparr>
      else m)"

text \<open>
  Modelled from the spec: \<open>drain\<close> of section 4.4: while \<open>takeNext()\<close> yields a unit, mark it
  active and start it.
\<close>

function drain :: "ExecutorManager \<Rightarrow> ExecutorManager" where
  "drain m =
     (case takeNext m of
        None \<Rightarrow> m
      | Some (u, m') \<Rightarrow> drain (start u (markActive u m')))"
  by pat_completeness auto
termination
proof (relation "measure (\<lambda>m. length (queue m))")
  show "wf (measure (\<lambda>m. length (queue m)))" by simp
next
  fix m :: ExecutorManager and x2 u m'
  assume "takeNext m = Some x2" and "(u, m') = x2"
  then have "takeNext m = Some (u, m')" by simp
  then have "queue m = u # queue m'"
    by (auto simp: takeNext_def split: option.splits list.splits)
  then show "(start u (markActive u m'), m) \<in> measure (\<lambda>m. length (queue m))"
    by (simp add: start_def markActive_def)
qed

text \<open>Modelled from the spec: \<open>submit(unit, policy)\<close> of section 4.4: enqueue, then drain.\<close>

definition submit :: "ScheduledProcess \<Rightarrow> QueueMethod \<Rightarrow> ExecutorManager \<Rightarrow> ExecutorManager" where
  "submit u policy m = drain (enqueue u policy m)"

text \<open>
  Modelled from the spec: \<open>cancel(handle)\<close> of section 4.2 asks the running process to
  terminate. It is idempotent and does not free the active slot: the process stays alive
  until its completion signal arrives.
\<close>

definition cancel :: "ExecutorManager \<Rightarrow> ExecutorManager" where
  "cancel m = m\<lparr>live := map (\<lambda>h. h\<lparr>cancelRequested := True\<rparr>) (live m)\<rparr>"

text \<open>
  Modelled from the spec: the completion signal of section 4.2 fires once per handle. On the
  signal of the handle \<open>p\<close> the driver clears \<open>active\<close> and drains again; a signal for a
  handle that is not alive does not occur, so it changes nothing.
\<close>

definition completion :: "nat \<Rightarrow> Outcome \<Rightarrow> ExecutorManager \<Rightarrow> ExecutorManager" where
  "completion p out m =
     (case filter (\<lambda>h. pid h = p) (live m) of
        [] \<Rightarrow> m
      | h # hs \<Rightarrow>
          drain (clearActive (m\<lparr>live := filter (\<lambda>h. pid h \<noteq> p) (live m),
                                 outcomes := outcomes m @ [(unit h, out)]\<rparr>)))"

text \<open>
  Modelled from the spec: a \<open>SpawnError\<close> (section 4.4) frees the active slot like any other
  completion and triggers the next drain. It is the completion of an active unit for which no
  process is alive.
\<close>

definition spawnFailure :: "ExecutorManager \<Rightarrow> ExecutorManager" where
  "spawnFailure m =
     (case activeProcess m of
        None \<Rightarrow> m
      | Some a \<Rightarrow>
          (if live m = []
           then drain (clearActive (m\<lparr>outcomes := outcomes m @ [(a, spawnFailed)]\<rparr>))
           else m))"

text \<open>
  Modelled from the spec: the events the single-threaded loop of section 5 applies one at a
  time, each atomically.
\<close>

datatype Event =
    Submit ScheduledProcess QueueMethod
  | ClearQueue ProcessType
  | Kill
  | Completion nat Outcome
  | SpawnFailure

fun step :: "ExecutorManager \<Rightarrow> Event \<Rightarrow> ExecutorManager" where
  "step m (Submit u policy) = submit u policy m"
| "step m (ClearQueue tag) = clearByTag tag m"
| "step m Kill = cancel m"
| "step m (Completion p out) = completion p out m"
| "step m SpawnFailure = spawnFailure m"

definition run :: "ExecutorManager \<Rightarrow> Event list \<Rightarrow> ExecutorManager" where
  "run m evs = foldl step m evs"

text \<open>
  Modelled from the spec: the manager at extension start-up (section 3), with nothing pending,
  nothing active and no process alive.
\<close>

definition initialManager :: "(string \<Rightarrow> bool) \<Rightarrow> ExecutorManager" where
  "initialManager sp =
     \<lparr>queue = [], activeProcess = None, live = [], nextPid = 0, spawnable = sp, outcomes = []\<rparr>"

text \<open>
  Modelled from the spec: the binding of the process runner's handle to the active slot
  (section 3). The processes alive are exactly the active unit, when the operating system
  could start it.
\<close>

definition coupled :: "ExecutorManager \<Rightarrow> bool" where
  "coupled m =
     (map unit (live m) =
        (case activeProcess m of
           None \<Rightarrow> []
         | Some a \<Rightarrow> if spawnable m (commandLine a) then [a] else []))"

section \<open>The executor bridge\<close>

text \<open>
  The state \<open>bridge.ts\<close> works on. The first group of fields is what the bridge reads from the
  host: the open workspace folders (their \<open>uri.fsPath\<close>; \<open>undefined\<close> and the empty array
  are both \<open>[]\<close>, as \<open>!workspace.workspaceFolders?.length\<close> treats them alike), the
  settings by section and key, \<open>fs.existsSync\<close>, \<open>path.join\<close>, the matching of a watcher's
  glob pattern against a path, and the document of the active editor. The helper
  \<open>getConfigAndReplaceVariables\<close> of \<open>utils/config\<close> is not among the source files: it reads
  the one setting its two arguments name, and what it makes of the value (variable
  substitution, \<open>undefined\<close>) is the parameter \<open>replaceVariables\<close>.

  The second group is the host's registry of live file-system watchers and listeners; a
  \<open>Disposable\<close> is the handle it was registered under. The third group is the bridge's own
  fields. The last group records what the bridge emits: the strings fired on
  \<open>_bridgeMessages\<close>, the number of times \<open>_databaseLocationChanged\<close> fired, the warnings
  shown with \<open>window.showWarningMessage\<close>, the executor manager, and the calls made to it.
\<close>

datatype FsEventKind = Created | Deleted | Changed

datatype ManagerCall =
    AddToQueue ScheduledProcess QueueMethod
  | ClearQueueOf ProcessType
  | KillProcess

record World =
  workspaceFolders :: "string list"
  config :: "string \<times> string \<Rightarrow> ConfigValue option"
  replaceVariables :: "ConfigValue option \<Rightarrow> string option"
  pathJoin :: "string \<Rightarrow> string \<Rightarrow> string"
  existsSync :: "string \<Rightarrow> bool"
  globMatch :: "string \<Rightarrow> string \<Rightarrow> bool"
  activeTextEditor :: "string option"
  hostWatchers :: "(nat \<times> string) list"
  hostListeners :: "(nat \<times> nat \<times> FsEventKind) list"
  nextHandle :: nat
  databaseWatches :: "nat list"
  databaseEvents :: "nat list"
  databasePaths :: "string option list"
  bridgeMessages :: "string list"
  databaseLocationChanged :: nat
  warningMessages :: "string list"
  executorManager :: ExecutorManager
  managerCalls :: "ManagerCall list"

definition getConfiguration :: "World \<Rightarrow> string \<Rightarrow> string \<Rightarrow> ConfigValue option" where
  "getConfiguration w section key = config w (section, key)"

text \<open>
  \<open>getConfigAndReplaceVariables(section, key)\<close> of \<open>utils/config\<close>, which is not among the
  source files: the setting its arguments name, handed to the parameter \<open>replaceVariables\<close>.
\<close>

definition getConfigAndReplaceVariables :: "World \<Rightarrow> string \<Rightarrow> string \<Rightarrow> string option" where
  "getConfigAndReplaceVariables w section key = replaceVariables w (config w (section, key))"

definition fireBridgeMessage :: "string \<Rightarrow> World \<Rightarrow> World" where
  "fireBridgeMessage msg w = w\<lparr>bridgeMessages := bridgeMessages w @ [msg]\<rparr>"

definition fireDatabaseLocationChanged :: "World \<Rightarrow> World" where
  "fireDatabaseLocationChanged w = w\<lparr>databaseLocationChanged := Suc (databaseLocationChanged w)\<rparr>"

definition showWarningMessage :: "string \<Rightarrow> World \<Rightarrow> World" where
  "showWarningMessage msg w = w\<lparr>warningMessages := warningMessages w @ [msg]\<rparr>"

text \<open>
  Modelled from the spec: \<open>addToQueue\<close>, \<open>clearQueue\<close> and \<open>killProcess\<close> of the executor
  manager, which the bridge calls and which are not among the source files. Their effect on
  the manager is the one of the spec's \<open>submit\<close>, \<open>clearByTag\<close> and \<open>cancel\<close>; each call
  is also recorded in \<open>managerCalls\<close>.
\<close>

definition addToQueue :: "ScheduledProcess \<Rightarrow> QueueMethod \<Rightarrow> World \<Rightarrow> World" where
  "addToQueue p method w =
     w\<lparr>executorManager := submit p method (executorManager w),
       managerCalls := managerCalls w @ [AddToQueue p method]\<rparr>"

definition clearQueue :: "ProcessType \<Rightarrow> World \<Rightarrow> World" where
  "clearQueue tag w =
     w\<lparr>executorManager := clearByTag tag (executorManager w),
       managerCalls := managerCalls w @ [ClearQueueOf tag]\<rparr>"

definition killProcess :: "World \<Rightarrow> World" where
  "killProcess w =
     w\<lparr>executorManager := cancel (executorManager w),
       managerCalls := managerCalls w @ [KillProcess]\<rparr>"

subsection \<open>getCompileCommandsPath\<close>

text \<open>
  The first loop: the first path that is set, not empty (\<open>filePath &&\<close>) and exists.
\<close>

fun firstExisting :: "(string \<Rightarrow> bool) \<Rightarrow> string option list \<Rightarrow> string option" where
  "firstExisting ex [] = None"
| "firstExisting ex (None # ps) = firstExisting ex ps"
| "firstExisting ex (Some p # ps) = (if p \<noteq> [] \<and> ex p then Some p else firstExisting ex ps)"

text \<open>The line the second loop fires for one entry of \<open>databasePaths\<close>.\<close>

fun notFoundLine :: "string option \<Rightarrow> string" where
  "notFoundLine None = ''>>>   <no path set in settings>\<newline>''"
| "notFoundLine (Some p) =
     (if p \<noteq> [] then ''>>>   '' @ p @ ''\<newline>'' else ''>>>   <no path set in settings>\<newline>'')"

definition getCompileCommandsPath :: "World \<Rightarrow> string option \<times> World" where
  "getCompileCommandsPath w =
     (if workspaceFolders w = [] then (None, w)
      else
        (case firstExisting (existsSync w) (databasePaths w) of
           Some filePath \<Rightarrow>
             (Some filePath,
              fireBridgeMessage (''>>> Database found at path: '' @ filePath @ ''\<newline>'') w)
         | None \<Rightarrow>
             (None,
              foldl (\<lambda>w' filePath. fireBridgeMessage (notFoundLine filePath) w')
                (fireBridgeMessage ''>>> No database found in the following paths:\<newline>'' w)
                (databasePaths w))))"

subsection \<open>The command lines\<close>

definition executablePath :: "World \<Rightarrow> string" where
  "executablePath w =
     (case getConfigAndReplaceVariables w ''codechecker.executor'' ''executablePath'' of
        None \<Rightarrow> ''CodeChecker''
      | Some p \<Rightarrow> p)"

definition outputFolder :: "World \<Rightarrow> string \<Rightarrow> string" where
  "outputFolder w workspaceFolder =
     (case getConfigAndReplaceVariables w ''codechecker.backend'' ''outputFolder'' of
        None \<Rightarrow> pathJoin w workspaceFolder ''.codechecker''
      | Some f \<Rightarrow> f)"

definition quoted :: "string \<Rightarrow> string" where
  "quoted s = [CHR 0x22] @ s @ [CHR 0x22]"

text \<open>\<open>ccThreads ? '-j ' + ccThreads : ''\<close>\<close>

fun threadsArgument :: "ConfigValue option \<Rightarrow> string" where
  "threadsArgument None = []"
| "threadsArgument (Some v) = (if truthy (Some v) then ''-j '' @ jsToString v else [])"

definition getAnalyzeCmdLine :: "string list \<Rightarrow> World \<Rightarrow> string option \<times> World" where
  "getAnalyzeCmdLine files w =
     (case workspaceFolders w of
        [] \<Rightarrow> (None, w)
      | workspaceFolder # _ \<Rightarrow>
          (let ccPath = executablePath w;
               ccFolder = outputFolder w workspaceFolder;
               ccArguments =
                 (case getConfigAndReplaceVariables w ''codechecker.executor'' ''arguments'' of
                    None \<Rightarrow> [] | Some a \<Rightarrow> a);
               ccThreads = getConfiguration w ''codechecker.executor'' ''threadCount'';
               (ccCompileCmd, w1) = getCompileCommandsPath w
           in case ccCompileCmd of
                None \<Rightarrow>
                  (None,
                   showWarningMessage
                     ''No compilation database found, CodeChecker not started - see logs for details''
                     w1)
              | Some cc \<Rightarrow>
                  (let filePaths =
                         (if files \<noteq> [] then ''--file '' @ joinWith '' '' (map quoted files)
                          else [])
                   in (Some (joinWith '' ''
                         [ccPath @ '' analyze'',
                          quoted cc,
                          ''--output '' @ quoted ccFolder,
                          threadsArgument ccThreads,
                          ccArguments,
                          filePaths]),
                       w1))))"

definition getLogCmdLine :: "World \<Rightarrow> string option" where
  "getLogCmdLine w =
     (case workspaceFolders w of
        [] \<Rightarrow> None
      | workspaceFolder # _ \<Rightarrow>
          (let ccPath = executablePath w;
               ccFolder = outputFolder w workspaceFolder;
               ccCompileCmd = pathJoin w ccFolder ''compile_commands.json''
           in Some (joinWith '' ''
                [ccPath @ '' log'',
                 ''--output '' @ quoted ccCompileCmd,
                 ''--build '' @ quoted ''make''])))"

subsection \<open>The analysis requests\<close>

definition analyzeFile :: "string \<Rightarrow> World \<Rightarrow> World" where
  "analyzeFile file w =
     (let (commandLine, w1) = getAnalyzeCmdLine [file] w
      in case commandLine of
           None \<Rightarrow> w1
         | Some c \<Rightarrow> addToQueue \<lparr>commandLine = c, processType = analyze\<rparr> Prepend w1)"

definition analyzeCurrentFile :: "World \<Rightarrow> World" where
  "analyzeCurrentFile w =
     (case activeTextEditor w of
        None \<Rightarrow> w
      | Some currentFile \<Rightarrow> analyzeFile currentFile w)"

definition analyzeOnSave :: "World \<Rightarrow> World" where
  "analyzeOnSave w =
     (let canAnalyzeOnSave = getConfiguration w ''codechecker.executor'' ''runOnSave'';
          (cc, w1) = getCompileCommandsPath w;
          ccExists = (cc \<noteq> None)
      in if \<not> truthy canAnalyzeOnSave \<or> \<not> ccExists then w1 else analyzeCurrentFile w1)"

text \<open>
  \<open>selectAndAnalyzeFile\<close>: with files given, each is analysed; with none, the answer of the
  open dialog (\<open>None\<close> when the user dismisses it) decides. \<open>Uri.file(f).fsPath\<close> is taken
  to be \<open>f\<close>.
\<close>

definition selectAndAnalyzeFile :: "string list \<Rightarrow> string list option \<Rightarrow> World \<Rightarrow> World" where
  "selectAndAnalyzeFile files selectedFiles w =
     (if files \<noteq> [] then foldl (\<lambda>w' file. analyzeFile file w') w files
      else
        (case selectedFiles of
           None \<Rightarrow> w
         | Some sel \<Rightarrow> foldl (\<lambda>w' file. analyzeFile file w') w sel))"

definition stopAnalysis :: "World \<Rightarrow> World" where
  "stopAnalysis w =
     (let w1 = clearQueue analyze w
      in if map_option processType (activeProcess (executorManager w1)) = Some analyze
         then killProcess w1
         else w1)"

definition analyzeProject :: "World \<Rightarrow> World" where
  "analyzeProject w =
     (let w1 = stopAnalysis w;
          (commandLine, w2) = getAnalyzeCmdLine [] w1
      in case commandLine of
           None \<Rightarrow> w2
         | Some c \<Rightarrow> addToQueue \<lparr>commandLine = c, processType = analyze\<rparr> Replace w2)"

subsection \<open>The database paths and their watchers\<close>

text \<open>
  \<open>Disposable.dispose()\<close>: the host drops the watcher or listener registered under the
  handle. \<open>workspace.createFileSystemWatcher(pattern)\<close> registers a watcher under a fresh
  handle; \<open>watch.onDidCreate(handler)\<close> and \<open>watch.onDidDelete(handler)\<close> register a
  listener on it, whose \<open>Disposable\<close> the bridge pushes onto \<open>databaseEvents\<close>. Every
  handler the bridge registers is \<open>() => this._databaseLocationChanged.fire()\<close>.
\<close>

definition disposeHandle :: "World \<Rightarrow> nat \<Rightarrow> World" where
  "disposeHandle w h =
     w\<lparr>hostWatchers := filter (\<lambda>(i, pat). i \<noteq> h) (hostWatchers w),
       hostListeners := filter (\<lambda>(i, watch, k). i \<noteq> h) (hostListeners w)\<rparr>"

definition createFileSystemWatcher :: "string \<Rightarrow> World \<Rightarrow> nat \<times> World" where
  "createFileSystemWatcher pat w =
     (nextHandle w,
      w\<lparr>hostWatchers := hostWatchers w @ [(nextHandle w, pat)],
        nextHandle := Suc (nextHandle w)\<rparr>)"

fun createWatchers :: "string list \<Rightarrow> World \<Rightarrow> nat list \<times> World" where
  "createWatchers [] w = ([], w)"
| "createWatchers (p # ps) w =
     (let (h, w1) = createFileSystemWatcher p w;
          (hs, w2) = createWatchers ps w1
      in (h # hs, w2))"

definition pushListener :: "FsEventKind \<Rightarrow> World \<Rightarrow> nat \<Rightarrow> World" where
  "pushListener k w watch =
     w\<lparr>hostListeners := hostListeners w @ [(nextHandle w, watch, k)],
       databaseEvents := databaseEvents w @ [nextHandle w],
       nextHandle := Suc (nextHandle w)\<rparr>"

text \<open>\<open>this.databasePaths.filter(x => x !== undefined)\<close>\<close>

fun definedPaths :: "string option list \<Rightarrow> string list" where
  "definedPaths [] = []"
| "definedPaths (None # ps) = definedPaths ps"
| "definedPaths (Some p # ps) = p # definedPaths ps"

definition updateDatabasePaths :: "World \<Rightarrow> World" where
  "updateDatabasePaths w =
     (case workspaceFolders w of
        [] \<Rightarrow> w
      | workspaceFolder # _ \<Rightarrow>
          (let ccFolder = outputFolder w workspaceFolder;
               w1 = w\<lparr>databasePaths :=
                      [getConfigAndReplaceVariables w ''codechecker.backend'' ''databasePath'',
                       Some (pathJoin w ccFolder ''compile_commands.json''),
                       Some (pathJoin w ccFolder ''compile_cmd.json'')]\<rparr>;
               w2 = foldl disposeHandle w1 (databaseEvents w1);
               w3 = foldl disposeHandle w2 (databaseWatches w2);
               (watches, w4) = createWatchers (definedPaths (databasePaths w3)) w3;
               w5 = w4\<lparr>databaseWatches := watches\<rparr>;
               w6 = foldl (\<lambda>w' watch. pushListener Deleted (pushListener Created w' watch) watch)
                      w5 (databaseWatches w5)
           in fireDatabaseLocationChanged w6))"

definition dispose :: "World \<Rightarrow> World" where
  "dispose w = foldl disposeHandle (foldl disposeHandle w (databaseEvents w)) (databaseWatches w)"

text \<open>
  What the host does when the file \<open>p\<close> is created, deleted or changed: the file system
  changes, and every live listener of that kind on a live watcher whose pattern matches \<open>p\<close>
  runs its handler.
\<close>

definition watcherMatches :: "World \<Rightarrow> nat \<Rightarrow> string \<Rightarrow> bool" where
  "watcherMatches w watch p =
     list_ex (\<lambda>(h, pat). h = watch \<and> globMatch w pat p) (hostWatchers w)"

definition triggered :: "World \<Rightarrow> FsEventKind \<Rightarrow> string \<Rightarrow> (nat \<times> nat \<times> FsEventKind) list" where
  "triggered w k p =
     filter (\<lambda>(l, watch, k'). k' = k \<and> watcherMatches w watch p) (hostListeners w)"

definition fsEvent :: "FsEventKind \<Rightarrow> string \<Rightarrow> World \<Rightarrow> World" where
  "fsEvent k p w =
     foldl (\<lambda>w' l. fireDatabaseLocationChanged w')
       (w\<lparr>existsSync := (existsSync w)
             (p := (case k of Created \<Rightarrow> True | Deleted \<Rightarrow> False | Changed \<Rightarrow> existsSync w p))\<rparr>)
       (triggered w k p)"

subsection \<open>The bridge in the host's event loop\<close>

text \<open>
  The constructor registers \<open>analyzeOnSave\<close> for saved documents, \<open>updateDatabasePaths\<close> for
  configuration changes and the four commands, then calls \<open>updateDatabasePaths\<close>. The host
  delivers one event at a time.
\<close>

datatype BridgeEvent =
    ConfigurationChanged "string \<times> string \<Rightarrow> ConfigValue option"
  | WorkspaceFoldersChanged "string list"
  | ActiveEditorChanged "string option"
  | DocumentSaved
  | AnalyzeCurrentFile
  | AnalyzeSelectedFiles "string list" "string list option"
  | AnalyzeProject
  | StopAnalysis
  | FileSystem FsEventKind string
  | Manager Event
  | Disposed

fun deliver :: "World \<Rightarrow> BridgeEvent \<Rightarrow> World" where
  "deliver w (ConfigurationChanged c) = updateDatabasePaths (w\<lparr>config := c\<rparr>)"
| "deliver w (WorkspaceFoldersChanged fs) = w\<lparr>workspaceFolders := fs\<rparr>"
| "deliver w (ActiveEditorChanged e) = w\<lparr>activeTextEditor := e\<rparr>"
| "deliver w DocumentSaved = analyzeOnSave w"
| "deliver w AnalyzeCurrentFile = analyzeCurrentFile w"
| "deliver w (AnalyzeSelectedFiles files selectedFiles) = selectAndAnalyzeFile files selectedFiles w"
| "deliver w AnalyzeProject = analyzeProject w"
| "deliver w StopAnalysis = stopAnalysis w"
| "deliver w (FileSystem k p) = fsEvent k p w"
| "deliver w (Manager e) = w\<lparr>executorManager := step (executorManager w) e\<rparr>"
| "deliver w Disposed = dispose w"

definition constructor :: "World \<Rightarrow> World" where
  "constructor w =
     updateDatabasePaths
       (w\<lparr>databaseWatches := [], databaseEvents := [], databasePaths := []\<rparr>)"

definition runBridge :: "World \<Rightarrow> BridgeEvent list \<Rightarrow> World" where
  "runBridge w evs = foldl deliver (constructor w) evs"

text \<open>
  A concrete host for the examples: the workspace \<open>/ws\<close>, no settings, \<open>path.join\<close> as
  concatenation with a slash, a file system that holds the files listed, patterns that
  match the path they spell.
\<close>

definition exampleWorld :: "string list \<Rightarrow> string list \<Rightarrow> World" where
  "exampleWorld folders files =
     \<lparr>workspaceFolders = folders,
      config = (\<lambda>k. None),
      replaceVariables = (\<lambda>v. case v of Some (CString s) \<Rightarrow> Some s | _ \<Rightarrow> None),
      pathJoin = (\<lambda>a b. a @ ''/'' @ b),
      existsSync = (\<lambda>p. List.member files p),
      globMatch = (\<lambda>pat p. pat = p),
      activeTextEditor = Some ''/ws/a.c'',
      hostWatchers = [],
      hostListeners = [],
      nextHandle = 0,
      databaseWatches = [],
      databaseEvents = [],
      databasePaths = [],
      bridgeMessages = [],
      databaseLocationChanged = 0,
      warningMessages = [],
      executorManager = initialManager (\<lambda>c. True),
      managerCalls = []\<rparr>"

text \<open>The strings one call of \<open>getCompileCommandsPath\<close> fires, in order.\<close>

definition compileCommandsMessages :: "World \<Rightarrow> string list" where
  "compileCommandsMessages w =
     (if workspaceFolders w = [] then []
      else
        (case firstExisting (existsSync w) (databasePaths w) of
           Some filePath \<Rightarrow> [''>>> Database found at path: '' @ filePath @ ''\<newline>'']
         | None \<Rightarrow>
             ''>>> No database found in the following paths:\<newline>'' #
             map notFoundLine (databasePaths w)))"

text \<open>The warning \<open>getAnalyzeCmdLine\<close> shows when no database is found.\<close>

definition noDatabaseWarning :: string where
  "noDatabaseWarning =
     ''No compilation database found, CodeChecker not started - see logs for details''"

text \<open>
  The example host after the constructor ran, without a database on disk and with the
  first default database on disk; the same with \<open>runOnSave\<close> switched on; and a manager that
  runs one analysis while two analyses and one log generation wait.
\<close>

definition noDatabaseWorld :: World where
  "noDatabaseWorld = updateDatabasePaths (exampleWorld [''/ws''] [])"

definition databaseWorld :: World where
  "databaseWorld =
     updateDatabasePaths (exampleWorld [''/ws''] [''/ws/.codechecker/compile_commands.json''])"

definition saveWorld :: "World \<Rightarrow> World" where
  "saveWorld w =
     w\<lparr>config := (\<lambda>k. if k = (''codechecker.executor'', ''runOnSave'')
                        then Some (CBool True) else None)\<rparr>"

definition busyManager :: ExecutorManager where
  "busyManager =
     \<lparr>queue = [\<lparr>commandLine = ''analyze a'', processType = analyze\<rparr>,
               \<lparr>commandLine = ''log'', processType = logGeneration\<rparr>,
               \<lparr>commandLine = ''analyze b'', processType = analyze\<rparr>],
      activeProcess = Some \<lparr>commandLine = ''analyze x'', processType = analyze\<rparr>,
      live = [\<lparr>pid = 0, unit = \<lparr>commandLine = ''analyze x'', processType = analyze\<rparr>,
               cancelRequested = False\<rparr>],
      nextPid = 1,
      spawnable = (\<lambda>c. True),
      outcomes = []\<rparr>"

text \<open>
  The listeners the loop of \<open>updateDatabasePaths\<close> registers for the watchers \<open>ws\<close>, the
  first under the handle \<open>n\<close>; and the three paths it computes.
\<close>

fun listenersFor :: "nat \<Rightarrow> nat list \<Rightarrow> (nat \<times> nat \<times> FsEventKind) list" where
  "listenersFor n [] = []"
| "listenersFor n (watch # ws) =
     (n, watch, Created) # (Suc n, watch, Deleted) # listenersFor (Suc (Suc n)) ws"

definition computedPaths :: "World \<Rightarrow> string \<Rightarrow> string option list" where
  "computedPaths w workspaceFolder =
     [getConfigAndReplaceVariables w ''codechecker.backend'' ''databasePath'',
      Some (pathJoin w (outputFolder w workspaceFolder) ''compile_commands.json''),
      Some (pathJoin w (outputFolder w workspaceFolder) ''compile_cmd.json'')]"

text \<open>
  Every watcher of the bridge that is still registered with the host has a listener for
  creation and one for deletion.
\<close>

definition listening :: "World \<Rightarrow> bool" where
  "listening w =
     (\<forall>watch \<in> set (databaseWatches w).
        watch \<in> fst ` set (hostWatchers w) \<longrightarrow>
          (\<exists>l. (l, watch, Created) \<in> set (hostListeners w))
          \<and> (\<exists>l. (l, watch, Deleted) \<in> set (hostListeners w)))"

text \<open>
  \<open>w'\<close> differs from \<open>w\<close> at most in what the bridge emitted: messages, warnings, the
  manager and the calls made to it.
\<close>

definition outputsOnly :: "World \<Rightarrow> World \<Rightarrow> bool" where
  "outputsOnly w w' =
     (w' = w\<lparr>bridgeMessages := bridgeMessages w',
             warningMessages := warningMessages w',
             executorManager := executorManager w',
             managerCalls := managerCalls w'\<rparr>)"

section \<open>The scheduler keeps one process alive at most\<close>

declare drain.simps [simp del]

lemma drain_active: "activeProcess m = Some a \<Longrightarrow> drain m = m"
  by (simp add: drain.simps takeNext_def)

lemma drain_empty: "queue m = [] \<Longrightarrow> drain m = m"
  by (simp add: drain.simps takeNext_def split: option.splits)

lemma drain_idle:
  "activeProcess m = None \<Longrightarrow> queue m = u # rest \<Longrightarrow>
   drain m = start u (markActive u (m\<lparr>queue := rest\<rparr>))"
  by (subst drain.simps) (simp add: takeNext_def drain_active start_def markActive_def)

lemma coupled_drain: "coupled m \<Longrightarrow> coupled (drain m)"
proof (cases "activeProcess m")
  case (Some a)
  assume "coupled m"
  with Some show ?thesis by (simp add: drain_active)
next
  case None
  assume c: "coupled m"
  show ?thesis
  proof (cases "queue m")
    case Nil
    with c show ?thesis by (simp add: drain_empty)
  next
    case (Cons u rest)
    with None c show ?thesis
      by (simp add: drain_idle coupled_def start_def markActive_def split: option.splits)
  qed
qed

lemma coupled_live: "coupled m \<Longrightarrow> length (live m) \<le> 1"
  by (auto simp: coupled_def split: option.splits if_splits dest: arg_cong [where f = length])

lemma coupled_step: "coupled m \<Longrightarrow> coupled (step m e)"
proof (cases e)
  case (Submit u policy)
  assume "coupled m"
  then have "coupled (enqueue u policy m)"
    by (cases policy) (simp_all add: coupled_def enqueue_def split: option.splits)
  then show ?thesis using Submit by (simp add: submit_def coupled_drain)
next
  case (ClearQueue tag)
  assume "coupled m"
  then show ?thesis using ClearQueue
    by (simp add: coupled_def clearByTag_def split: option.splits)
next
  case Kill
  assume "coupled m"
  then show ?thesis using Kill
    by (simp add: coupled_def cancel_def comp_def split: option.splits)
next
  case (Completion p out)
  assume c: "coupled m"
  show ?thesis
  proof (cases "filter (\<lambda>h. pid h = p) (live m)")
    case Nil
    with c Completion show ?thesis by (simp add: completion_def)
  next
    case (Cons h hs)
    from c have "length (live m) \<le> 1" by (rule coupled_live)
    with Cons have "filter (\<lambda>h. pid h \<noteq> p) (live m) = []"
      by (cases "live m") (auto split: if_splits)
    then have "coupled (clearActive (m\<lparr>live := filter (\<lambda>h. pid h \<noteq> p) (live m),
                                 outcomes := outcomes m @ [(unit h, out)]\<rparr>))"
      by (simp add: coupled_def clearActive_def split: option.splits)
    then show ?thesis using Completion Cons by (simp add: completion_def coupled_drain)
  qed
next
  case SpawnFailure
  assume c: "coupled m"
  show ?thesis
  proof (cases "activeProcess m")
    case None
    with c SpawnFailure show ?thesis by (simp add: spawnFailure_def)
  next
    case (Some a)
    show ?thesis
    proof (cases "live m = []")
      case True
      then have "coupled (clearActive (m\<lparr>outcomes := outcomes m @ [(a, spawnFailed)]\<rparr>))"
        by (simp add: coupled_def clearActive_def split: option.splits)
      then show ?thesis using SpawnFailure Some True
        by (simp add: spawnFailure_def coupled_drain)
    next
      case False
      with c SpawnFailure Some show ?thesis by (simp add: spawnFailure_def)
    qed
  qed
qed

lemma coupled_run: "coupled m \<Longrightarrow> coupled (run m evs)"
  unfolding run_def by (induction evs arbitrary: m) (simp_all add: coupled_step)

lemma coupled_initial: "coupled (initialManager sp)"
  by (simp add: coupled_def initialManager_def)

text \<open>
  Claim C1. At most one external process is executing at a time: after any prefix of any
  sequence of submissions, queue clearings, cancellation requests, completion signals and
  spawn failures applied to the manager as it is at start-up, the process runner holds at
  most one process that is alive. Every interleaving of concurrent triggers is such a
  sequence, since the loop applies one operation at a time.
\<close>

theorem at_most_one_active:
  "length (live (run (initialManager sp) (take n evs))) \<le> 1"
  by (rule coupled_live) (rule coupled_run, rule coupled_initial)

text \<open>
  Two submissions in a row: the first unit is started, the second waits, one process is
  alive.
\<close>

theorem at_most_one_active_witness:
  "length (live (run (initialManager (\<lambda>c. True))
      (take 2 [Submit \<lparr>commandLine = ''true'', processType = analyze\<rparr> Append,
               Submit \<lparr>commandLine = ''false'', processType = analyze\<rparr> Append]))) \<le> 1
   \<and> live (run (initialManager (\<lambda>c. True))
      (take 2 [Submit \<lparr>commandLine = ''true'', processType = analyze\<rparr> Append,
               Submit \<lparr>commandLine = ''false'', processType = analyze\<rparr> Append])) \<noteq> []"
proof -
  have "live (run (initialManager (\<lambda>c. True))
      (take 2 [Submit \<lparr>commandLine = ''true'', processType = analyze\<rparr> Append,
               Submit \<lparr>commandLine = ''false'', processType = analyze\<rparr> Append])) \<noteq> []"
    by code_simp
  then show ?thesis
    using at_most_one_active [of "\<lambda>c. True" 2
        "[Submit \<lparr>commandLine = ''true'', processType = analyze\<rparr> Append,
          Submit \<lparr>commandLine = ''false'', processType = analyze\<rparr> Append]"]
    by blast
qed

section \<open>What getCompileCommandsPath returns and fires\<close>

lemma foldl_notFound:
  "foldl (\<lambda>w' filePath. fireBridgeMessage (notFoundLine filePath) w') w0 ps =
   w0\<lparr>bridgeMessages := bridgeMessages w0 @ map notFoundLine ps\<rparr>"
  by (induction ps arbitrary: w0) (simp_all add: fireBridgeMessage_def)

lemma getCompileCommandsPath_world:
  "snd (getCompileCommandsPath w) =
   w\<lparr>bridgeMessages := bridgeMessages w @ compileCommandsMessages w\<rparr>"
  unfolding getCompileCommandsPath_def compileCommandsMessages_def foldl_notFound
  by (simp add: fireBridgeMessage_def split: option.splits)

lemma getCompileCommandsPath_result:
  "fst (getCompileCommandsPath w) =
   (if workspaceFolders w = [] then None else firstExisting (existsSync w) (databasePaths w))"
  by (simp add: getCompileCommandsPath_def split: option.splits)

lemma getCompileCommandsPath_eq:
  "getCompileCommandsPath w =
   (if workspaceFolders w = [] then None else firstExisting (existsSync w) (databasePaths w),
    w\<lparr>bridgeMessages := bridgeMessages w @ compileCommandsMessages w\<rparr>)"
  by (simp add: prod_eq_iff getCompileCommandsPath_world getCompileCommandsPath_result)

lemma notFoundLine_shape:
  "take 4 (notFoundLine fp) = ''>>> '' \<and> last (notFoundLine fp) = CHR 0x0A"
  by (cases fp) simp_all

lemma compileCommandsMessages_shape:
  "m \<in> set (compileCommandsMessages w) \<Longrightarrow> take 4 m = ''>>> '' \<and> last m = CHR 0x0A"
  by (auto simp: compileCommandsMessages_def notFoundLine_shape split: if_splits option.splits)

text \<open>
  Claim C8. Every string fired on the bridge's message channel starts with \<open>>>> \<close> and ends
  with a newline: on every path through \<open>getCompileCommandsPath\<close>, the messages recorded
  before the call are kept, and each message the call adds has that shape.
\<close>

theorem bridgeMessages_lines:
  "take (length (bridgeMessages w)) (bridgeMessages (snd (getCompileCommandsPath w))) =
     bridgeMessages w
   \<and> (\<forall>m \<in> set (drop (length (bridgeMessages w))
                  (bridgeMessages (snd (getCompileCommandsPath w)))).
        take 4 m = ''>>> '' \<and> last m = CHR 0x0A)"
  by (simp add: getCompileCommandsPath_world compileCommandsMessages_shape)

text \<open>
  In the workspace \<open>/ws\<close> with no database on disk the call fires four lines; the last one
  names the second default path.
\<close>

theorem bridgeMessages_lines_witness:
  "''>>>   /ws/.codechecker/compile_cmd.json\<newline>''
     \<in> set (drop (length (bridgeMessages (updateDatabasePaths (exampleWorld [''/ws''] []))))
          (bridgeMessages (snd (getCompileCommandsPath
             (updateDatabasePaths (exampleWorld [''/ws''] []))))))
   \<and> take 4 ''>>>   /ws/.codechecker/compile_cmd.json\<newline>'' = ''>>> ''
   \<and> last ''>>>   /ws/.codechecker/compile_cmd.json\<newline>'' = CHR 0x0A"
proof -
  have "drop (length (bridgeMessages (updateDatabasePaths (exampleWorld [''/ws''] []))))
          (bridgeMessages (snd (getCompileCommandsPath
             (updateDatabasePaths (exampleWorld [''/ws''] [])))))
        = [''>>> No database found in the following paths:\<newline>'',
           ''>>>   <no path set in settings>\<newline>'',
           ''>>>   /ws/.codechecker/compile_commands.json\<newline>'',
           ''>>>   /ws/.codechecker/compile_cmd.json\<newline>'']"
    by code_simp
  then have "''>>>   /ws/.codechecker/compile_cmd.json\<newline>''
     \<in> set (drop (length (bridgeMessages (updateDatabasePaths (exampleWorld [''/ws''] []))))
          (bridgeMessages (snd (getCompileCommandsPath
             (updateDatabasePaths (exampleWorld [''/ws''] []))))))"
    by simp
  then show ?thesis
    using bridgeMessages_lines [of "updateDatabasePaths (exampleWorld [''/ws''] [])"]
    by blast
qed

section \<open>Stopping the analysis\<close>

lemma stopAnalysis_eq:
  "stopAnalysis w =
   w\<lparr>executorManager :=
        (if map_option processType (activeProcess (executorManager w)) = Some analyze
         then cancel (clearByTag analyze (executorManager w))
         else clearByTag analyze (executorManager w)),
      managerCalls :=
        managerCalls w @ [ClearQueueOf analyze] @
        (if map_option processType (activeProcess (executorManager w)) = Some analyze
         then [KillProcess] else [])\<rparr>"
  by (auto simp: stopAnalysis_def clearQueue_def killProcess_def clearByTag_def Let_def)

text \<open>
  Claim C3. \<open>stopAnalysis\<close> removes every pending unit tagged \<open>analyze\<close> and leaves the other
  pending units in their order; it calls \<open>killProcess\<close>, once, exactly when there is an active
  process and its tag is \<open>analyze\<close>, and then cancellation is requested of the process that is
  alive; with no active process or one of another tag it makes no such call and the
  processes alive are untouched. The active slot is the same afterwards in every case.
\<close>

theorem stopAnalysis_effect:
  "queue (executorManager (stopAnalysis w)) =
     filter (\<lambda>u. processType u \<noteq> analyze) (queue (executorManager w))
   \<and> activeProcess (executorManager (stopAnalysis w)) = activeProcess (executorManager w)
   \<and> managerCalls (stopAnalysis w) =
       managerCalls w @ [ClearQueueOf analyze] @
       (if map_option processType (activeProcess (executorManager w)) = Some analyze
        then [KillProcess] else [])
   \<and> live (executorManager (stopAnalysis w)) =
       (if map_option processType (activeProcess (executorManager w)) = Some analyze
        then map (\<lambda>h. h\<lparr>cancelRequested := True\<rparr>) (live (executorManager w))
        else live (executorManager w))"
  by (auto simp: stopAnalysis_eq clearByTag_def cancel_def)

section \<open>Requests without a compilation database\<close>

lemma getAnalyzeCmdLine_none:
  "(fst (getAnalyzeCmdLine files w) = None) = (fst (getCompileCommandsPath w) = None)"
  by (cases "workspaceFolders w")
     (auto simp: getAnalyzeCmdLine_def getCompileCommandsPath_eq Let_def split: option.splits)

lemma getAnalyzeCmdLine_world:
  "snd (getAnalyzeCmdLine files w) =
   w\<lparr>bridgeMessages := bridgeMessages w @ compileCommandsMessages w,
     warningMessages := warningMessages w @
       (if workspaceFolders w \<noteq> [] \<and> fst (getCompileCommandsPath w) = None
        then [noDatabaseWarning] else [])\<rparr>"
  by (cases "workspaceFolders w")
     (auto simp: getAnalyzeCmdLine_def getCompileCommandsPath_eq Let_def showWarningMessage_def
        compileCommandsMessages_def noDatabaseWarning_def split: option.splits)

lemma analyzeFile_none:
  "fst (getAnalyzeCmdLine [file] w) = None \<Longrightarrow> analyzeFile file w = snd (getAnalyzeCmdLine [file] w)"
  by (simp add: analyzeFile_def case_prod_beta)

lemma analyzeFile_some:
  "fst (getAnalyzeCmdLine [file] w) = Some c \<Longrightarrow>
   analyzeFile file w =
     addToQueue \<lparr>commandLine = c, processType = analyze\<rparr> Prepend (snd (getAnalyzeCmdLine [file] w))"
  by (simp add: analyzeFile_def case_prod_beta)

lemma analyzeProject_none:
  "fst (getAnalyzeCmdLine [] (stopAnalysis w)) = None \<Longrightarrow>
   analyzeProject w = snd (getAnalyzeCmdLine [] (stopAnalysis w))"
  by (simp add: analyzeProject_def Let_def case_prod_beta)

lemma analyzeProject_some:
  "fst (getAnalyzeCmdLine [] (stopAnalysis w)) = Some c \<Longrightarrow>
   analyzeProject w =
     addToQueue \<lparr>commandLine = c, processType = analyze\<rparr> Replace
       (snd (getAnalyzeCmdLine [] (stopAnalysis w)))"
  by (simp add: analyzeProject_def Let_def case_prod_beta)

lemma stopAnalysis_host:
  "workspaceFolders (stopAnalysis w) = workspaceFolders w"
  "existsSync (stopAnalysis w) = existsSync w"
  "databasePaths (stopAnalysis w) = databasePaths w"
  "warningMessages (stopAnalysis w) = warningMessages w"
  "bridgeMessages (stopAnalysis w) = bridgeMessages w"
  by (simp_all add: stopAnalysis_eq)

lemma getCompileCommandsPath_stop:
  "fst (getCompileCommandsPath (stopAnalysis w)) = fst (getCompileCommandsPath w)"
  by (simp add: getCompileCommandsPath_result stopAnalysis_host)

lemma analyzeOnSave_none:
  "fst (getCompileCommandsPath w) = None \<Longrightarrow> analyzeOnSave w = snd (getCompileCommandsPath w)"
  by (simp add: analyzeOnSave_def Let_def case_prod_beta)

text \<open>
  Claim C4, as amended. When no compilation database is discoverable
  (\<open>getCompileCommandsPath\<close> returns \<open>undefined\<close>), \<open>getAnalyzeCmdLine\<close> returns \<open>undefined\<close>
  and no request reaches the queue: \<open>analyzeFile\<close> and the on-save trigger leave the manager
  as it is and call nothing on it, and \<open>analyzeProject\<close> does nothing beyond its stop. The
  warning is shown exactly once by \<open>analyzeFile\<close> and \<open>analyzeProject\<close> when a workspace folder
  is open, and not at all when none is open; the on-save trigger never shows it.
\<close>

theorem no_command_line_no_submission:
  assumes "fst (getCompileCommandsPath w) = None"
  shows "fst (getAnalyzeCmdLine files w) = None
   \<and> warningMessages (snd (getAnalyzeCmdLine files w)) =
       warningMessages w @ (if workspaceFolders w = [] then [] else [noDatabaseWarning])
   \<and> executorManager (analyzeFile file w) = executorManager w
   \<and> managerCalls (analyzeFile file w) = managerCalls w
   \<and> warningMessages (analyzeFile file w) =
       warningMessages w @ (if workspaceFolders w = [] then [] else [noDatabaseWarning])
   \<and> executorManager (analyzeProject w) = executorManager (stopAnalysis w)
   \<and> managerCalls (analyzeProject w) = managerCalls (stopAnalysis w)
   \<and> warningMessages (analyzeProject w) =
       warningMessages w @ (if workspaceFolders w = [] then [] else [noDatabaseWarning])
   \<and> executorManager (analyzeOnSave w) = executorManager w
   \<and> managerCalls (analyzeOnSave w) = managerCalls w
   \<and> warningMessages (analyzeOnSave w) = warningMessages w"
proof -
  have n: "fst (getAnalyzeCmdLine fs w) = None" for fs
    using assms by (simp add: getAnalyzeCmdLine_none)
  have s: "fst (getCompileCommandsPath (stopAnalysis w)) = None"
    using assms by (simp add: getCompileCommandsPath_stop)
  then have p: "fst (getAnalyzeCmdLine [] (stopAnalysis w)) = None"
    by (simp add: getAnalyzeCmdLine_none)
  show ?thesis
    using assms s
    by (simp add: n analyzeFile_none [OF n] analyzeProject_none [OF p] analyzeOnSave_none
        getAnalyzeCmdLine_world getCompileCommandsPath_world stopAnalysis_host)
qed

section \<open>Single-file and whole-project requests\<close>

lemma getAnalyzeCmdLine_outputs:
  "fst (getAnalyzeCmdLine files
      (w\<lparr>bridgeMessages := b, warningMessages := wm, executorManager := em, managerCalls := mc\<rparr>))
   = fst (getAnalyzeCmdLine files w)"
  by (cases "workspaceFolders w")
     (auto simp: getAnalyzeCmdLine_def getCompileCommandsPath_eq Let_def executablePath_def
        outputFolder_def getConfigAndReplaceVariables_def getConfiguration_def
        split: option.splits)

lemma analyzeFile_eq:
  "analyzeFile file w =
   w\<lparr>bridgeMessages := bridgeMessages (analyzeFile file w),
     warningMessages := warningMessages (analyzeFile file w),
     executorManager := executorManager (analyzeFile file w),
     managerCalls := managerCalls (analyzeFile file w)\<rparr>"
  by (cases "fst (getAnalyzeCmdLine [file] w)")
     (simp_all add: analyzeFile_none analyzeFile_some getAnalyzeCmdLine_world addToQueue_def)

lemma getAnalyzeCmdLine_analyzeFile:
  "fst (getAnalyzeCmdLine files (analyzeFile file w)) = fst (getAnalyzeCmdLine files w)"
  by (subst analyzeFile_eq) (rule getAnalyzeCmdLine_outputs)

lemma analyzeFile_calls:
  "managerCalls (analyzeFile file w) =
   managerCalls w @
   map (\<lambda>c. AddToQueue \<lparr>commandLine = c, processType = analyze\<rparr> Prepend)
     (List.map_filter (\<lambda>f. fst (getAnalyzeCmdLine [f] w)) [file])"
  by (cases "fst (getAnalyzeCmdLine [file] w)")
     (simp_all add: analyzeFile_none analyzeFile_some getAnalyzeCmdLine_world addToQueue_def)

lemma analyzeFile_manager:
  "executorManager (analyzeFile file w) =
   foldl (\<lambda>m c. submit \<lparr>commandLine = c, processType = analyze\<rparr> Prepend m) (executorManager w)
     (List.map_filter (\<lambda>f. fst (getAnalyzeCmdLine [f] w)) [file])"
  by (cases "fst (getAnalyzeCmdLine [file] w)")
     (simp_all add: analyzeFile_none analyzeFile_some getAnalyzeCmdLine_world addToQueue_def)

lemma analyzeFiles_calls:
  "managerCalls (foldl (\<lambda>w' file. analyzeFile file w') w files) =
   managerCalls w @
   map (\<lambda>c. AddToQueue \<lparr>commandLine = c, processType = analyze\<rparr> Prepend)
     (List.map_filter (\<lambda>f. fst (getAnalyzeCmdLine [f] w)) files)"
proof (induction files arbitrary: w)
  case Nil
  show ?case by simp
next
  case (Cons f fs)
  show ?case
    by (simp add: Cons.IH getAnalyzeCmdLine_analyzeFile analyzeFile_calls split: option.splits)
qed

lemma analyzeFiles_manager:
  "executorManager (foldl (\<lambda>w' file. analyzeFile file w') w files) =
   foldl (\<lambda>m c. submit \<lparr>commandLine = c, processType = analyze\<rparr> Prepend m) (executorManager w)
     (List.map_filter (\<lambda>f. fst (getAnalyzeCmdLine [f] w)) files)"
proof (induction files arbitrary: w)
  case Nil
  show ?case by simp
next
  case (Cons f fs)
  show ?case
    by (simp add: Cons.IH getAnalyzeCmdLine_analyzeFile analyzeFile_manager split: option.splits)
qed

lemma enqueue_active: "activeProcess (enqueue u policy m) = activeProcess m"
  by (cases policy) (simp_all add: enqueue_def)

lemma submit_busy: "activeProcess m = Some a \<Longrightarrow> submit u policy m = enqueue u policy m"
  by (simp add: submit_def drain_active [of _ a] enqueue_active)

lemma submit_prepend_idle:
  "activeProcess m = None \<Longrightarrow> submit u Prepend m = start u (markActive u m)"
  by (simp add: submit_def enqueue_def drain_idle [of _ u "queue m"])

lemma getAnalyzeCmdLine_field:
  "fst (getAnalyzeCmdLine files (w\<lparr>bridgeMessages := b\<rparr>)) = fst (getAnalyzeCmdLine files w)"
  "fst (getAnalyzeCmdLine files (w\<lparr>warningMessages := wm\<rparr>)) = fst (getAnalyzeCmdLine files w)"
  "fst (getAnalyzeCmdLine files (w\<lparr>executorManager := em\<rparr>)) = fst (getAnalyzeCmdLine files w)"
  "fst (getAnalyzeCmdLine files (w\<lparr>managerCalls := mc\<rparr>)) = fst (getAnalyzeCmdLine files w)"
  by (cases "workspaceFolders w";
      auto simp: getAnalyzeCmdLine_def getCompileCommandsPath_eq Let_def executablePath_def
        outputFolder_def getConfigAndReplaceVariables_def getConfiguration_def
        split: option.splits)+

lemma getAnalyzeCmdLine_stop:
  "fst (getAnalyzeCmdLine files (stopAnalysis w)) = fst (getAnalyzeCmdLine files w)"
  by (subst stopAnalysis_eq) (simp add: getAnalyzeCmdLine_field)

lemma analyzeCurrentFile_calls:
  "managerCalls (analyzeCurrentFile w) =
   managerCalls w @
   map (\<lambda>c. AddToQueue \<lparr>commandLine = c, processType = analyze\<rparr> Prepend)
     (List.map_filter (\<lambda>f. fst (getAnalyzeCmdLine [f] w))
        (case activeTextEditor w of None \<Rightarrow> [] | Some f \<Rightarrow> [f]))"
  by (cases "activeTextEditor w") (simp_all add: analyzeCurrentFile_def analyzeFile_calls)

lemma analyzeCurrentFile_manager:
  "executorManager (analyzeCurrentFile w) =
   foldl (\<lambda>m c. submit \<lparr>commandLine = c, processType = analyze\<rparr> Prepend m) (executorManager w)
     (List.map_filter (\<lambda>f. fst (getAnalyzeCmdLine [f] w))
        (case activeTextEditor w of None \<Rightarrow> [] | Some f \<Rightarrow> [f]))"
  by (cases "activeTextEditor w") (simp_all add: analyzeCurrentFile_def analyzeFile_manager)

lemma analyzeOnSave_eq:
  "analyzeOnSave w =
   (if truthy (getConfiguration w ''codechecker.executor'' ''runOnSave'')
       \<and> fst (getCompileCommandsPath w) \<noteq> None
    then analyzeCurrentFile (snd (getCompileCommandsPath w))
    else snd (getCompileCommandsPath w))"
  by (simp add: analyzeOnSave_def Let_def case_prod_beta)

text \<open>
  Claim C5. Every single-file request that yields a command line is enqueued with the
  prepend policy and the \<open>analyze\<close> tag: the calls that analysing selected files, the current
  file, or the current file on save make to the manager are one \<open>addToQueue(_, 'prepend')\<close>
  of an \<open>analyze\<close> unit per requested file for which \<open>getAnalyzeCmdLine\<close> returns a command
  line, in the order of the files, and nothing else. A prepended unit is placed at the head of
  the pending units and leaves a running process alone (the active slot and the processes
  alive are the same); when nothing is running it is started at once.
\<close>

theorem single_file_requests_prepend:
  "managerCalls (selectAndAnalyzeFile files sel w) =
     managerCalls w @
     map (\<lambda>c. AddToQueue \<lparr>commandLine = c, processType = analyze\<rparr> Prepend)
       (List.map_filter (\<lambda>f. fst (getAnalyzeCmdLine [f] w))
          (if files \<noteq> [] then files else (case sel of None \<Rightarrow> [] | Some s \<Rightarrow> s)))
   \<and> executorManager (selectAndAnalyzeFile files sel w) =
     foldl (\<lambda>m c. submit \<lparr>commandLine = c, processType = analyze\<rparr> Prepend m) (executorManager w)
       (List.map_filter (\<lambda>f. fst (getAnalyzeCmdLine [f] w))
          (if files \<noteq> [] then files else (case sel of None \<Rightarrow> [] | Some s \<Rightarrow> s)))
   \<and> managerCalls (analyzeCurrentFile w) =
     managerCalls w @
     map (\<lambda>c. AddToQueue \<lparr>commandLine = c, processType = analyze\<rparr> Prepend)
       (List.map_filter (\<lambda>f. fst (getAnalyzeCmdLine [f] w))
          (case activeTextEditor w of None \<Rightarrow> [] | Some f \<Rightarrow> [f]))
   \<and> executorManager (analyzeCurrentFile w) =
     foldl (\<lambda>m c. submit \<lparr>commandLine = c, processType = analyze\<rparr> Prepend m) (executorManager w)
       (List.map_filter (\<lambda>f. fst (getAnalyzeCmdLine [f] w))
          (case activeTextEditor w of None \<Rightarrow> [] | Some f \<Rightarrow> [f]))
   \<and> managerCalls (analyzeOnSave w) =
     managerCalls w @
     map (\<lambda>c. AddToQueue \<lparr>commandLine = c, processType = analyze\<rparr> Prepend)
       (List.map_filter (\<lambda>f. fst (getAnalyzeCmdLine [f] w))
          (if truthy (getConfiguration w ''codechecker.executor'' ''runOnSave'')
              \<and> fst (getCompileCommandsPath w) \<noteq> None
           then (case activeTextEditor w of None \<Rightarrow> [] | Some f \<Rightarrow> [f]) else []))
   \<and> executorManager (analyzeOnSave w) =
     foldl (\<lambda>m c. submit \<lparr>commandLine = c, processType = analyze\<rparr> Prepend m) (executorManager w)
       (List.map_filter (\<lambda>f. fst (getAnalyzeCmdLine [f] w))
          (if truthy (getConfiguration w ''codechecker.executor'' ''runOnSave'')
              \<and> fst (getCompileCommandsPath w) \<noteq> None
           then (case activeTextEditor w of None \<Rightarrow> [] | Some f \<Rightarrow> [f]) else []))
   \<and> (\<forall>a. activeProcess m = Some a \<longrightarrow>
         submit u Prepend m = m\<lparr>queue := u # queue m\<rparr>)
   \<and> (activeProcess m = None \<longrightarrow> submit u Prepend m = start u (markActive u m))"
proof -
  have sel: "selectAndAnalyzeFile files sel w =
      foldl (\<lambda>w' file. analyzeFile file w') w
        (if files \<noteq> [] then files else (case sel of None \<Rightarrow> [] | Some s \<Rightarrow> s))"
    by (simp add: selectAndAnalyzeFile_def split: option.splits)
  have busy: "\<forall>a. activeProcess m = Some a \<longrightarrow> submit u Prepend m = m\<lparr>queue := u # queue m\<rparr>"
    by (simp add: submit_busy enqueue_def)
  have idle: "activeProcess m = None \<longrightarrow> submit u Prepend m = start u (markActive u m)"
    by (simp add: submit_prepend_idle)
  have sc: "managerCalls (analyzeOnSave w) =
     managerCalls w @
     map (\<lambda>c. AddToQueue \<lparr>commandLine = c, processType = analyze\<rparr> Prepend)
       (List.map_filter (\<lambda>f. fst (getAnalyzeCmdLine [f] w))
          (if truthy (getConfiguration w ''codechecker.executor'' ''runOnSave'')
              \<and> fst (getCompileCommandsPath w) \<noteq> None
           then (case activeTextEditor w of None \<Rightarrow> [] | Some f \<Rightarrow> [f]) else []))"
    by (auto simp: analyzeOnSave_eq analyzeCurrentFile_calls getCompileCommandsPath_world
        getAnalyzeCmdLine_field)
  have sm: "executorManager (analyzeOnSave w) =
     foldl (\<lambda>m c. submit \<lparr>commandLine = c, processType = analyze\<rparr> Prepend m) (executorManager w)
       (List.map_filter (\<lambda>f. fst (getAnalyzeCmdLine [f] w))
          (if truthy (getConfiguration w ''codechecker.executor'' ''runOnSave'')
              \<and> fst (getCompileCommandsPath w) \<noteq> None
           then (case activeTextEditor w of None \<Rightarrow> [] | Some f \<Rightarrow> [f]) else []))"
    by (auto simp: analyzeOnSave_eq analyzeCurrentFile_manager getCompileCommandsPath_world
        getAnalyzeCmdLine_field)
  show ?thesis
    unfolding sel
    using busy idle sc sm
      analyzeFiles_calls [of w "if files \<noteq> [] then files else (case sel of None \<Rightarrow> [] | Some s \<Rightarrow> s)"]
      analyzeFiles_manager [of w "if files \<noteq> [] then files else (case sel of None \<Rightarrow> [] | Some s \<Rightarrow> s)"]
      analyzeCurrentFile_calls [of w] analyzeCurrentFile_manager [of w]
    by blast
qed

text \<open>
  Claim C6. The on-save trigger submits only when the \<open>runOnSave\<close> setting is truthy and
  \<open>getCompileCommandsPath\<close> finds a database: if either fails, the manager is unchanged, no
  call is made to it and no warning is shown; if both hold it proceeds as
  \<open>analyzeCurrentFile\<close>, which with an active editor enqueues the analysis of its file.
\<close>

theorem analyzeOnSave_gate:
  "(\<not> (truthy (getConfiguration w ''codechecker.executor'' ''runOnSave'')
        \<and> fst (getCompileCommandsPath w) \<noteq> None) \<longrightarrow>
      executorManager (analyzeOnSave w) = executorManager w
      \<and> managerCalls (analyzeOnSave w) = managerCalls w
      \<and> warningMessages (analyzeOnSave w) = warningMessages w)
   \<and> (truthy (getConfiguration w ''codechecker.executor'' ''runOnSave'')
        \<and> fst (getCompileCommandsPath w) \<noteq> None \<longrightarrow>
      analyzeOnSave w = analyzeCurrentFile (snd (getCompileCommandsPath w)))
   \<and> (\<forall>f. truthy (getConfiguration w ''codechecker.executor'' ''runOnSave'')
        \<and> fst (getCompileCommandsPath w) \<noteq> None \<and> activeTextEditor w = Some f \<longrightarrow>
      (\<exists>c. fst (getAnalyzeCmdLine [f] w) = Some c
         \<and> managerCalls (analyzeOnSave w) =
             managerCalls w @ [AddToQueue \<lparr>commandLine = c, processType = analyze\<rparr> Prepend]))"
proof (intro conjI impI allI)
  assume "\<not> (truthy (getConfiguration w ''codechecker.executor'' ''runOnSave'')
        \<and> fst (getCompileCommandsPath w) \<noteq> None)"
  then have e: "analyzeOnSave w = snd (getCompileCommandsPath w)"
    by (auto simp: analyzeOnSave_eq)
  show "executorManager (analyzeOnSave w) = executorManager w"
    and "managerCalls (analyzeOnSave w) = managerCalls w"
    and "warningMessages (analyzeOnSave w) = warningMessages w"
    by (simp_all add: e getCompileCommandsPath_world)
next
  assume "truthy (getConfiguration w ''codechecker.executor'' ''runOnSave'')
        \<and> fst (getCompileCommandsPath w) \<noteq> None"
  then show "analyzeOnSave w = analyzeCurrentFile (snd (getCompileCommandsPath w))"
    by (simp add: analyzeOnSave_eq)
next
  fix f
  assume a: "truthy (getConfiguration w ''codechecker.executor'' ''runOnSave'')
        \<and> fst (getCompileCommandsPath w) \<noteq> None \<and> activeTextEditor w = Some f"
  then have "fst (getAnalyzeCmdLine [f] w) \<noteq> None"
    by (simp add: getAnalyzeCmdLine_none)
  then obtain c where c: "fst (getAnalyzeCmdLine [f] w) = Some c" by blast
  have "managerCalls (analyzeOnSave w) =
      managerCalls w @ [AddToQueue \<lparr>commandLine = c, processType = analyze\<rparr> Prepend]"
    using a c
    by (simp add: analyzeOnSave_eq analyzeCurrentFile_calls getCompileCommandsPath_world
        getAnalyzeCmdLine_field)
  with c show "\<exists>c. fst (getAnalyzeCmdLine [f] w) = Some c
         \<and> managerCalls (analyzeOnSave w) =
             managerCalls w @ [AddToQueue \<lparr>commandLine = c, processType = analyze\<rparr> Prepend]"
    by blast
qed

text \<open>
  Claim C2, as amended. A whole-project request first clears the pending \<open>analyze\<close> units
  and requests cancellation of an active \<open>analyze\<close> process, through \<open>stopAnalysis\<close>, and only
  then, when a command line can be formed, enqueues the project-wide unit with the
  replace policy; when none can be formed it enqueues nothing. The replace-all enqueue makes
  the new unit the sole pending one and does not touch the active slot or the processes
  alive, and a submission with that policy while a process runs changes the pending units
  only.
\<close>

theorem analyzeProject_stop_then_replace:
  "managerCalls (analyzeProject w) =
     managerCalls w @ [ClearQueueOf analyze] @
     (if map_option processType (activeProcess (executorManager w)) = Some analyze
      then [KillProcess] else []) @
     (case fst (getAnalyzeCmdLine [] w) of
        None \<Rightarrow> []
      | Some c \<Rightarrow> [AddToQueue \<lparr>commandLine = c, processType = analyze\<rparr> Replace])
   \<and> executorManager (analyzeProject w) =
     (case fst (getAnalyzeCmdLine [] w) of
        None \<Rightarrow> executorManager (stopAnalysis w)
      | Some c \<Rightarrow>
          submit \<lparr>commandLine = c, processType = analyze\<rparr> Replace (executorManager (stopAnalysis w)))
   \<and> activeProcess (enqueue u Replace m) = activeProcess m
   \<and> live (enqueue u Replace m) = live m
   \<and> queue (enqueue u Replace m) = [u]
   \<and> (\<forall>a. activeProcess m = Some a \<longrightarrow> submit u Replace m = m\<lparr>queue := [u]\<rparr>)"
proof -
  have r: "fst (getAnalyzeCmdLine [] (stopAnalysis w)) = fst (getAnalyzeCmdLine [] w)"
    by (rule getAnalyzeCmdLine_stop)
  have calls: "managerCalls (stopAnalysis w) =
      managerCalls w @ [ClearQueueOf analyze] @
      (if map_option processType (activeProcess (executorManager w)) = Some analyze
       then [KillProcess] else [])"
    by (simp add: stopAnalysis_eq)
  show ?thesis
  proof (cases "fst (getAnalyzeCmdLine [] w)")
    case None
    then have "analyzeProject w = snd (getAnalyzeCmdLine [] (stopAnalysis w))"
      using r by (simp add: analyzeProject_none)
    then show ?thesis using None calls
      by (simp add: getAnalyzeCmdLine_world enqueue_def submit_busy)
  next
    case (Some c)
    then have "analyzeProject w =
        addToQueue \<lparr>commandLine = c, processType = analyze\<rparr> Replace
          (snd (getAnalyzeCmdLine [] (stopAnalysis w)))"
      using r by (simp add: analyzeProject_some)
    then show ?thesis using Some calls
      by (simp add: getAnalyzeCmdLine_world addToQueue_def enqueue_def submit_busy)
  qed
qed

section \<open>The requests on concrete hosts\<close>

text \<open>
  Claim C4 as stated fails: with no workspace folder open \<open>getAnalyzeCmdLine\<close> returns
  \<open>undefined\<close> and \<open>analyzeFile\<close> shows no warning; and with a workspace folder open, no
  database on disk and \<open>runOnSave\<close> on, the on-save trigger shows no warning either.
\<close>

theorem warning_once_counterexample:
  "fst (getAnalyzeCmdLine [''/ws/a.c''] (exampleWorld [] [])) = None
   \<and> warningMessages (analyzeFile ''/ws/a.c'' (exampleWorld [] [])) = []
   \<and> fst (getCompileCommandsPath (saveWorld noDatabaseWorld)) = None
   \<and> warningMessages (analyzeOnSave (saveWorld noDatabaseWorld)) = []"
  by code_simp

text \<open>
  In the workspace \<open>/ws\<close> without a database, analysing a file shows the warning once and
  calls nothing on the manager; analysing the project only clears the queue.
\<close>

theorem no_command_line_no_submission_witness:
  "fst (getCompileCommandsPath noDatabaseWorld) = None
   \<and> warningMessages (analyzeFile ''/ws/a.c'' noDatabaseWorld) = [noDatabaseWarning]
   \<and> managerCalls (analyzeFile ''/ws/a.c'' noDatabaseWorld) = []
   \<and> managerCalls (analyzeProject noDatabaseWorld) = [ClearQueueOf analyze]"
proof -
  have h: "fst (getCompileCommandsPath noDatabaseWorld) = None" by code_simp
  have e: "warningMessages noDatabaseWorld = []" "managerCalls noDatabaseWorld = []"
    "workspaceFolders noDatabaseWorld \<noteq> []"
    "managerCalls (stopAnalysis noDatabaseWorld) = [ClearQueueOf analyze]"
    by code_simp+
  show ?thesis
    using no_command_line_no_submission [OF h, of "[''/ws/a.c'']" "''/ws/a.c''"] h e
    by simp
qed

text \<open>
  Claim C2 as stated fails: in the workspace \<open>/ws\<close> without a database a whole-project
  request stops the analysis and enqueues nothing.
\<close>

theorem analyzeProject_always_enqueues_counterexample:
  "managerCalls (analyzeProject noDatabaseWorld) = [ClearQueueOf analyze]
   \<and> queue (executorManager (analyzeProject noDatabaseWorld)) = []
   \<and> activeProcess (executorManager (analyzeProject noDatabaseWorld)) = None"
  by code_simp

text \<open>
  With the first default database on disk and an analysis running, the whole-project request
  clears the queue, asks for the running analysis to be cancelled, and then enqueues the
  project-wide command line with the replace policy.
\<close>

theorem analyzeProject_stop_then_replace_witness:
  "activeProcess busyManager = Some \<lparr>commandLine = ''analyze x'', processType = analyze\<rparr>
   \<and> submit \<lparr>commandLine = ''analyze all'', processType = analyze\<rparr> Replace busyManager =
       busyManager\<lparr>queue := [\<lparr>commandLine = ''analyze all'', processType = analyze\<rparr>]\<rparr>
   \<and> managerCalls (analyzeProject (databaseWorld\<lparr>executorManager := busyManager\<rparr>)) =
       [ClearQueueOf analyze, KillProcess,
        AddToQueue
          \<lparr>commandLine =
             ''CodeChecker analyze \"/ws/.codechecker/compile_commands.json\" --output \"/ws/.codechecker\"   '',
           processType = analyze\<rparr> Replace]"
proof -
  have a: "activeProcess busyManager = Some \<lparr>commandLine = ''analyze x'', processType = analyze\<rparr>"
    by (simp add: busyManager_def)
  have e: "managerCalls (databaseWorld\<lparr>executorManager := busyManager\<rparr>) = []"
    "fst (getAnalyzeCmdLine [] (databaseWorld\<lparr>executorManager := busyManager\<rparr>)) =
       Some ''CodeChecker analyze \"/ws/.codechecker/compile_commands.json\" --output \"/ws/.codechecker\"   ''"
    by code_simp+
  show ?thesis
    using analyzeProject_stop_then_replace
      [of "databaseWorld\<lparr>executorManager := busyManager\<rparr>"
          "\<lparr>commandLine = ''analyze all'', processType = analyze\<rparr>" busyManager] a e
    by simp
qed

text \<open>
  With the first default database on disk, analysing the current file \<open>/ws/a.c\<close> makes one
  call; prepending to the busy manager puts the unit at the head of its queue.
\<close>

theorem single_file_requests_prepend_witness:
  "activeProcess busyManager = Some \<lparr>commandLine = ''analyze x'', processType = analyze\<rparr>
   \<and> submit \<lparr>commandLine = ''analyze c'', processType = analyze\<rparr> Prepend busyManager =
       busyManager\<lparr>queue := \<lparr>commandLine = ''analyze c'', processType = analyze\<rparr> # queue busyManager\<rparr>
   \<and> managerCalls (analyzeCurrentFile databaseWorld) =
       [AddToQueue
          \<lparr>commandLine =
             ''CodeChecker analyze \"/ws/.codechecker/compile_commands.json\" --output \"/ws/.codechecker\"   --file \"/ws/a.c\"'',
           processType = analyze\<rparr> Prepend]"
proof -
  have a: "activeProcess busyManager = Some \<lparr>commandLine = ''analyze x'', processType = analyze\<rparr>"
    by (simp add: busyManager_def)
  have e: "managerCalls databaseWorld = []"
    "activeTextEditor databaseWorld = Some ''/ws/a.c''"
    "fst (getAnalyzeCmdLine [''/ws/a.c''] databaseWorld) =
       Some ''CodeChecker analyze \"/ws/.codechecker/compile_commands.json\" --output \"/ws/.codechecker\"   --file \"/ws/a.c\"''"
    by code_simp+
  show ?thesis
    using single_file_requests_prepend
      [of "[]" None databaseWorld busyManager
          "\<lparr>commandLine = ''analyze c'', processType = analyze\<rparr>"] a e
    by simp
qed

text \<open>
  With \<open>runOnSave\<close> on and a database on disk, saving enqueues the current file; with the flag
  unset nothing happens.
\<close>

theorem analyzeOnSave_gate_witness:
  "truthy (getConfiguration (saveWorld databaseWorld) ''codechecker.executor'' ''runOnSave'')
   \<and> fst (getCompileCommandsPath (saveWorld databaseWorld)) \<noteq> None
   \<and> activeTextEditor (saveWorld databaseWorld) = Some ''/ws/a.c''
   \<and> (\<exists>c. fst (getAnalyzeCmdLine [''/ws/a.c''] (saveWorld databaseWorld)) = Some c
         \<and> managerCalls (analyzeOnSave (saveWorld databaseWorld)) =
             managerCalls (saveWorld databaseWorld) @
             [AddToQueue \<lparr>commandLine = c, processType = analyze\<rparr> Prepend])
   \<and> \<not> (truthy (getConfiguration databaseWorld ''codechecker.executor'' ''runOnSave'')
          \<and> fst (getCompileCommandsPath databaseWorld) \<noteq> None)
   \<and> managerCalls (analyzeOnSave databaseWorld) = managerCalls databaseWorld
   \<and> warningMessages (analyzeOnSave databaseWorld) = warningMessages databaseWorld
   \<and> executorManager (analyzeOnSave databaseWorld) = executorManager databaseWorld"
proof -
  have h: "truthy (getConfiguration (saveWorld databaseWorld) ''codechecker.executor'' ''runOnSave'')"
    "fst (getCompileCommandsPath (saveWorld databaseWorld)) \<noteq> None"
    "activeTextEditor (saveWorld databaseWorld) = Some ''/ws/a.c''"
    by code_simp+
  have n: "\<not> (truthy (getConfiguration databaseWorld ''codechecker.executor'' ''runOnSave'')
          \<and> fst (getCompileCommandsPath databaseWorld) \<noteq> None)"
    by code_simp
  show ?thesis
    using analyzeOnSave_gate [of "saveWorld databaseWorld"] analyzeOnSave_gate [of databaseWorld] h n
    by blast
qed

text \<open>
  The tag-scoped stop of the busy manager: both pending analyses go, the log generation
  stays, and the running analysis is asked to stop.
\<close>

theorem stopAnalysis_effect_witness:
  "queue (executorManager (stopAnalysis (databaseWorld\<lparr>executorManager := busyManager\<rparr>))) =
     [\<lparr>commandLine = ''log'', processType = logGeneration\<rparr>]
   \<and> managerCalls (stopAnalysis (databaseWorld\<lparr>executorManager := busyManager\<rparr>)) =
     [ClearQueueOf analyze, KillProcess]"
proof -
  have e: "managerCalls (databaseWorld\<lparr>executorManager := busyManager\<rparr>) = []"
    by code_simp
  show ?thesis
    using stopAnalysis_effect [of "databaseWorld\<lparr>executorManager := busyManager\<rparr>"] e
    by (simp add: busyManager_def)
qed

section \<open>The watchers of the database paths\<close>

lemma disposeAll_eq:
  "foldl disposeHandle w hs =
   w\<lparr>hostWatchers := filter (\<lambda>x. fst x \<notin> set hs) (hostWatchers w),
     hostListeners := filter (\<lambda>x. fst x \<notin> set hs) (hostListeners w)\<rparr>"
proof (induction hs arbitrary: w)
  case Nil
  show ?case by simp
next
  case (Cons h hs)
  have "foldl disposeHandle w (h # hs) = foldl disposeHandle (disposeHandle w h) hs" by simp
  also have "\<dots> = (disposeHandle w h)
      \<lparr>hostWatchers := filter (\<lambda>x. fst x \<notin> set hs) (hostWatchers (disposeHandle w h)),
        hostListeners := filter (\<lambda>x. fst x \<notin> set hs) (hostListeners (disposeHandle w h))\<rparr>"
    by (rule Cons.IH)
  also have "\<dots> = w\<lparr>hostWatchers := filter (\<lambda>x. fst x \<notin> set (h # hs)) (hostWatchers w),
     hostListeners := filter (\<lambda>x. fst x \<notin> set (h # hs)) (hostListeners w)\<rparr>"
    by (auto simp: disposeHandle_def case_prod_beta intro: filter_cong)
  finally show ?case .
qed

lemma createWatchers_eq:
  "createWatchers ps w =
   ([nextHandle w ..< nextHandle w + length ps],
    w\<lparr>hostWatchers := hostWatchers w @ zip [nextHandle w ..< nextHandle w + length ps] ps,
      nextHandle := nextHandle w + length ps\<rparr>)"
proof (induction ps arbitrary: w)
  case Nil
  show ?case by simp
next
  case (Cons p ps)
  show ?case
    by (simp add: createFileSystemWatcher_def Cons.IH upt_conv_Cons del: upt_Suc)
qed

lemma pushListeners_eq:
  "foldl (\<lambda>w' watch. pushListener Deleted (pushListener Created w' watch) watch) w ws =
   w\<lparr>hostListeners := hostListeners w @ listenersFor (nextHandle w) ws,
     databaseEvents := databaseEvents w @ [nextHandle w ..< nextHandle w + 2 * length ws],
     nextHandle := nextHandle w + 2 * length ws\<rparr>"
proof (induction ws arbitrary: w)
  case Nil
  show ?case by simp
next
  case (Cons watch ws)
  have "foldl (\<lambda>w' watch. pushListener Deleted (pushListener Created w' watch) watch) w (watch # ws)
      = foldl (\<lambda>w' watch. pushListener Deleted (pushListener Created w' watch) watch)
          (pushListener Deleted (pushListener Created w watch) watch) ws"
    by simp
  also have "\<dots> = w\<lparr>hostListeners := hostListeners w @ listenersFor (nextHandle w) (watch # ws),
     databaseEvents := databaseEvents w @ [nextHandle w ..< nextHandle w + 2 * length (watch # ws)],
     nextHandle := nextHandle w + 2 * length (watch # ws)\<rparr>"
    unfolding Cons.IH
    by (simp add: pushListener_def upt_conv_Cons del: upt_Suc)
  finally show ?case .
qed

lemma updateDatabasePaths_eq:
  "updateDatabasePaths w =
   (case workspaceFolders w of
      [] \<Rightarrow> w
    | workspaceFolder # _ \<Rightarrow>
        w\<lparr>databasePaths := computedPaths w workspaceFolder,
          hostWatchers :=
            filter (\<lambda>x. fst x \<notin> set (databaseEvents w) \<and> fst x \<notin> set (databaseWatches w))
              (hostWatchers w) @
            zip [nextHandle w ..<
                 nextHandle w + length (definedPaths (computedPaths w workspaceFolder))]
              (definedPaths (computedPaths w workspaceFolder)),
          hostListeners :=
            filter (\<lambda>x. fst x \<notin> set (databaseEvents w) \<and> fst x \<notin> set (databaseWatches w))
              (hostListeners w) @
            listenersFor
              (nextHandle w + length (definedPaths (computedPaths w workspaceFolder)))
              [nextHandle w ..<
               nextHandle w + length (definedPaths (computedPaths w workspaceFolder))],
          nextHandle :=
            nextHandle w + 3 * length (definedPaths (computedPaths w workspaceFolder)),
          databaseWatches :=
            [nextHandle w ..<
             nextHandle w + length (definedPaths (computedPaths w workspaceFolder))],
          databaseEvents :=
            databaseEvents w @
            [nextHandle w + length (definedPaths (computedPaths w workspaceFolder)) ..<
             nextHandle w + 3 * length (definedPaths (computedPaths w workspaceFolder))],
          databaseLocationChanged := Suc (databaseLocationChanged w)\<rparr>)"
proof (cases "workspaceFolders w")
  case Nil
  then show ?thesis by (simp add: updateDatabasePaths_def)
next
  case (Cons folder rest)
  then show ?thesis
    unfolding updateDatabasePaths_def Let_def disposeAll_eq createWatchers_eq
      pushListeners_eq fireDatabaseLocationChanged_def computedPaths_def [symmetric]
    by (simp add: algebra_simps)
qed

lemma listenersFor_both:
  "watch \<in> set ws \<Longrightarrow>
   (\<exists>l. (l, watch, Created) \<in> set (listenersFor n ws))
   \<and> (\<exists>l. (l, watch, Deleted) \<in> set (listenersFor n ws))"
proof (induction ws arbitrary: n)
  case Nil
  then show ?case by simp
next
  case (Cons x ws)
  show ?case
  proof (cases "watch = x")
    case True
    then show ?thesis by auto
  next
    case False
    with Cons.prems have "watch \<in> set ws" by simp
    from Cons.IH [OF this, of "Suc (Suc n)"] show ?thesis by auto
  qed
qed

lemma listening_update: "listening w \<Longrightarrow> listening (updateDatabasePaths w)"
proof (cases "workspaceFolders w")
  case Nil
  assume "listening w"
  with Nil show ?thesis by (simp add: updateDatabasePaths_def)
next
  case (Cons folder rest)
  show ?thesis
    unfolding listening_def
  proof (intro ballI impI)
    fix watch
    assume "watch \<in> set (databaseWatches (updateDatabasePaths w))"
    then have "watch \<in> set [nextHandle w ..<
        nextHandle w + length (definedPaths (computedPaths w folder))]"
      using Cons by (simp add: updateDatabasePaths_eq)
    from listenersFor_both [OF this,
        of "nextHandle w + length (definedPaths (computedPaths w folder))"]
    show "(\<exists>l. (l, watch, Created) \<in> set (hostListeners (updateDatabasePaths w)))
        \<and> (\<exists>l. (l, watch, Deleted) \<in> set (hostListeners (updateDatabasePaths w)))"
      using Cons by (auto simp: updateDatabasePaths_eq)
  qed
qed

lemma outputsOnly_listening:
  assumes "outputsOnly w w'"
  shows "listening w' = listening w"
proof -
  have "listening (w\<lparr>bridgeMessages := bridgeMessages w',
             warningMessages := warningMessages w',
             executorManager := executorManager w',
             managerCalls := managerCalls w'\<rparr>) = listening w"
    by (simp add: listening_def)
  with assms show ?thesis by (simp add: outputsOnly_def)
qed

lemma outputsOnly_refl: "outputsOnly w w"
  by (simp add: outputsOnly_def)

lemma outputsOnly_trans:
  assumes "outputsOnly w w'" and "outputsOnly w' w''"
  shows "outputsOnly w w''"
proof -
  from assms(2) have "w'' = w'\<lparr>bridgeMessages := bridgeMessages w'',
             warningMessages := warningMessages w'',
             executorManager := executorManager w'',
             managerCalls := managerCalls w''\<rparr>"
    by (simp add: outputsOnly_def)
  also from assms(1) have "w' = w\<lparr>bridgeMessages := bridgeMessages w',
             warningMessages := warningMessages w',
             executorManager := executorManager w',
             managerCalls := managerCalls w'\<rparr>"
    by (simp add: outputsOnly_def)
  finally show ?thesis by (simp add: outputsOnly_def)
qed

lemma outputsOnly_getCompileCommandsPath: "outputsOnly w (snd (getCompileCommandsPath w))"
  by (simp add: outputsOnly_def getCompileCommandsPath_world)

lemma outputsOnly_analyzeFile: "outputsOnly w (analyzeFile f w)"
  unfolding outputsOnly_def by (rule analyzeFile_eq)

lemma outputsOnly_analyzeFiles: "outputsOnly w (foldl (\<lambda>w' f. analyzeFile f w') w fs)"
proof (induction fs arbitrary: w)
  case Nil
  show ?case by (simp add: outputsOnly_refl)
next
  case (Cons f fs)
  show ?case
    using outputsOnly_trans [OF outputsOnly_analyzeFile Cons.IH] by simp
qed

lemma outputsOnly_analyzeCurrentFile: "outputsOnly w (analyzeCurrentFile w)"
  by (cases "activeTextEditor w")
     (simp_all add: analyzeCurrentFile_def outputsOnly_refl outputsOnly_analyzeFile)

lemma outputsOnly_analyzeOnSave: "outputsOnly w (analyzeOnSave w)"
  using outputsOnly_trans [OF outputsOnly_getCompileCommandsPath outputsOnly_analyzeCurrentFile]
  by (simp add: analyzeOnSave_eq outputsOnly_getCompileCommandsPath)

lemma outputsOnly_select: "outputsOnly w (selectAndAnalyzeFile files sel w)"
  by (cases sel)
     (simp_all add: selectAndAnalyzeFile_def outputsOnly_refl outputsOnly_analyzeFiles)

lemma outputsOnly_stopAnalysis: "outputsOnly w (stopAnalysis w)"
  by (simp add: outputsOnly_def stopAnalysis_eq)

lemma outputsOnly_analyzeProject: "outputsOnly w (analyzeProject w)"
proof (cases "fst (getAnalyzeCmdLine [] (stopAnalysis w))")
  case None
  have "outputsOnly (stopAnalysis w) (snd (getAnalyzeCmdLine [] (stopAnalysis w)))"
    by (simp add: outputsOnly_def getAnalyzeCmdLine_world)
  from outputsOnly_trans [OF outputsOnly_stopAnalysis this] None
  show ?thesis by (simp add: analyzeProject_none)
next
  case (Some c)
  have "outputsOnly (stopAnalysis w)
      (addToQueue \<lparr>commandLine = c, processType = analyze\<rparr> Replace
         (snd (getAnalyzeCmdLine [] (stopAnalysis w))))"
    by (simp add: outputsOnly_def getAnalyzeCmdLine_world addToQueue_def)
  from outputsOnly_trans [OF outputsOnly_stopAnalysis this] Some
  show ?thesis by (simp add: analyzeProject_some)
qed

lemma fireAll_eq:
  "foldl (\<lambda>w' l. fireDatabaseLocationChanged w') w0 ls =
   w0\<lparr>databaseLocationChanged := databaseLocationChanged w0 + length ls\<rparr>"
  by (induction ls arbitrary: w0) (simp_all add: fireDatabaseLocationChanged_def)

lemma fsEvent_eq:
  "fsEvent k p w =
   w\<lparr>existsSync := (existsSync w)
        (p := (case k of Created \<Rightarrow> True | Deleted \<Rightarrow> False | Changed \<Rightarrow> existsSync w p)),
     databaseLocationChanged := databaseLocationChanged w + length (triggered w k p)\<rparr>"
  by (simp add: fsEvent_def fireAll_eq)

lemma dispose_eq:
  "dispose w =
   w\<lparr>hostWatchers :=
       filter (\<lambda>x. fst x \<notin> set (databaseEvents w) \<and> fst x \<notin> set (databaseWatches w))
         (hostWatchers w),
     hostListeners :=
       filter (\<lambda>x. fst x \<notin> set (databaseEvents w) \<and> fst x \<notin> set (databaseWatches w))
         (hostListeners w)\<rparr>"
  by (simp add: dispose_def disposeAll_eq)

lemma listening_host:
  "listening (w\<lparr>workspaceFolders := fs\<rparr>) = listening w"
  "listening (w\<lparr>activeTextEditor := e\<rparr>) = listening w"
  "listening (w\<lparr>executorManager := m\<rparr>) = listening w"
  "listening (w\<lparr>config := c\<rparr>) = listening w"
  by (simp_all add: listening_def)

lemma listening_deliver: "listening w \<Longrightarrow> listening (deliver w e)"
proof (cases e)
  case (ConfigurationChanged c)
  assume "listening w"
  then have "listening (w\<lparr>config := c\<rparr>)" by (simp add: listening_def)
  then show ?thesis using ConfigurationChanged by (simp add: listening_update)
next
  case (FileSystem k p)
  assume "listening w"
  then show ?thesis using FileSystem by (simp add: fsEvent_eq listening_def)
next
  case Disposed
  show ?thesis using Disposed by (auto simp: dispose_eq listening_def)
qed (simp_all add: listening_host
      outputsOnly_listening [OF outputsOnly_analyzeOnSave]
      outputsOnly_listening [OF outputsOnly_analyzeCurrentFile]
      outputsOnly_listening [OF outputsOnly_select]
      outputsOnly_listening [OF outputsOnly_analyzeProject]
      outputsOnly_listening [OF outputsOnly_stopAnalysis])

lemma listening_constructor: "listening (constructor w)"
  unfolding constructor_def by (rule listening_update) (simp add: listening_def)

lemma listening_deliverAll: "listening w \<Longrightarrow> listening (foldl deliver w evs)"
  by (induction evs arbitrary: w) (simp_all add: listening_deliver)

lemma listening_runBridge: "listening (runBridge w evs)"
  unfolding runBridge_def by (rule listening_deliverAll) (rule listening_constructor)

lemma listening_triggered:
  assumes "listening w" and "watch \<in> set (databaseWatches w)"
    and "watcherMatches w watch p" and "k = Created \<or> k = Deleted"
  shows "triggered w k p \<noteq> []"
proof -
  from assms(3) have "watch \<in> fst ` set (hostWatchers w)"
    by (force simp: watcherMatches_def list_ex_iff)
  with assms(1,2) have "(\<exists>l. (l, watch, Created) \<in> set (hostListeners w))
      \<and> (\<exists>l. (l, watch, Deleted) \<in> set (hostListeners w))"
    by (simp add: listening_def)
  with assms(4) obtain l where "(l, watch, k) \<in> set (hostListeners w)" by blast
  with assms(3) have "(l, watch, k) \<in> set (triggered w k p)"
    by (simp add: triggered_def)
  then show ?thesis by auto
qed

lemma firstExisting_found:
  "Some p \<in> set ps \<Longrightarrow> p \<noteq> [] \<Longrightarrow> ex p \<Longrightarrow> firstExisting ex ps \<noteq> None"
  by (induction ex ps rule: firstExisting.induct) auto

lemma firstExisting_exists: "firstExisting ex ps = Some p \<Longrightarrow> ex p"
  by (induction ex ps rule: firstExisting.induct) (auto split: if_splits)

text \<open>
  Claim C7. In every state the bridge reaches from its constructor, for every path \<open>p\<close>
  that one of the bridge's registered watchers matches, the creation of \<open>p\<close> and the deletion
  of \<open>p\<close> each fire \<open>databaseLocationChanged\<close>. The handler does nothing else: the event
  changes only the file system and the count of firings, not the database paths and not the
  executor manager. The configuration is resolved again by the next call of
  \<open>getCompileCommandsPath\<close>, which every submission makes: after the creation of a database
  path it finds a database, after the deletion of \<open>p\<close> it no longer answers \<open>p\<close>.
\<close>

theorem databaseLocationChanged_fires:
  assumes "w = runBridge w0 evs"
    and "watch \<in> set (databaseWatches w)"
    and "watcherMatches w watch p"
    and "k = Created \<or> k = Deleted"
  shows "databaseLocationChanged w < databaseLocationChanged (fsEvent k p w)
   \<and> fsEvent k p w =
       w\<lparr>existsSync := (existsSync w)(p := (k = Created)),
         databaseLocationChanged := databaseLocationChanged w + length (triggered w k p)\<rparr>
   \<and> executorManager (fsEvent k p w) = executorManager w
   \<and> databasePaths (fsEvent k p w) = databasePaths w
   \<and> (workspaceFolders w \<noteq> [] \<and> Some p \<in> set (databasePaths w) \<and> p \<noteq> [] \<longrightarrow>
        fst (getCompileCommandsPath (fsEvent Created p w)) \<noteq> None)
   \<and> fst (getCompileCommandsPath (fsEvent Deleted p w)) \<noteq> Some p"
proof -
  have "listening w" using assms(1) by (simp add: listening_runBridge)
  from listening_triggered [OF this assms(2,3,4)] have t: "0 < length (triggered w k p)"
    by simp
  have d: "fst (getCompileCommandsPath (fsEvent Deleted p w)) \<noteq> Some p"
  proof
    assume "fst (getCompileCommandsPath (fsEvent Deleted p w)) = Some p"
    then have "firstExisting (existsSync (fsEvent Deleted p w)) (databasePaths w) = Some p"
      by (simp add: getCompileCommandsPath_result fsEvent_eq split: if_splits)
    from firstExisting_exists [OF this] show False by (simp add: fsEvent_eq)
  qed
  have c: "workspaceFolders w \<noteq> [] \<and> Some p \<in> set (databasePaths w) \<and> p \<noteq> [] \<longrightarrow>
        fst (getCompileCommandsPath (fsEvent Created p w)) \<noteq> None"
  proof (intro impI)
    assume a: "workspaceFolders w \<noteq> [] \<and> Some p \<in> set (databasePaths w) \<and> p \<noteq> []"
    then have "firstExisting ((existsSync w)(p := True)) (databasePaths w) \<noteq> None"
      using firstExisting_found [of p "databasePaths w" "(existsSync w)(p := True)"] by simp
    with a show "fst (getCompileCommandsPath (fsEvent Created p w)) \<noteq> None"
      by (simp add: getCompileCommandsPath_result fsEvent_eq del: not_None_eq)
  qed
  show ?thesis
    using t c d assms(4) by (auto simp: fsEvent_eq)
qed

section \<open>Settings the bridge does not read\<close>

lemma computedPaths_config:
  assumes "c (''codechecker.backend'', ''outputFolder'') =
           config w (''codechecker.backend'', ''outputFolder'')"
    and "c (''codechecker.backend'', ''databasePath'') =
         config w (''codechecker.backend'', ''databasePath'')"
  shows "computedPaths (w\<lparr>config := c\<rparr>) folder = computedPaths w folder"
  using assms
  by (simp add: computedPaths_def outputFolder_def getConfigAndReplaceVariables_def
      split: option.splits)

lemma updateDatabasePaths_config:
  assumes "c (''codechecker.backend'', ''outputFolder'') =
           config w (''codechecker.backend'', ''outputFolder'')"
    and "c (''codechecker.backend'', ''databasePath'') =
         config w (''codechecker.backend'', ''databasePath'')"
  shows "updateDatabasePaths (w\<lparr>config := c\<rparr>) = (updateDatabasePaths w)\<lparr>config := c\<rparr>"
  by (cases "workspaceFolders w")
     (simp_all add: updateDatabasePaths_eq computedPaths_config [OF assms])

lemma getCompileCommandsPath_config:
  "getCompileCommandsPath (w\<lparr>config := c\<rparr>) =
   (fst (getCompileCommandsPath w), (snd (getCompileCommandsPath w))\<lparr>config := c\<rparr>)"
  by (simp add: getCompileCommandsPath_eq compileCommandsMessages_def split: option.splits)

lemma getAnalyzeCmdLine_config:
  assumes "c (''codechecker.executor'', ''executablePath'') =
           config w (''codechecker.executor'', ''executablePath'')"
    and "c (''codechecker.backend'', ''outputFolder'') =
         config w (''codechecker.backend'', ''outputFolder'')"
    and "c (''codechecker.executor'', ''arguments'') =
         config w (''codechecker.executor'', ''arguments'')"
    and "c (''codechecker.executor'', ''threadCount'') =
         config w (''codechecker.executor'', ''threadCount'')"
  shows "fst (getAnalyzeCmdLine files (w\<lparr>config := c\<rparr>)) = fst (getAnalyzeCmdLine files w)"
  using assms
  by (cases "workspaceFolders w")
     (auto simp: getAnalyzeCmdLine_def getCompileCommandsPath_eq Let_def executablePath_def
        outputFolder_def getConfigAndReplaceVariables_def getConfiguration_def
        split: option.splits)

lemma getLogCmdLine_config:
  assumes "c (''codechecker.executor'', ''executablePath'') =
           config w (''codechecker.executor'', ''executablePath'')"
    and "c (''codechecker.backend'', ''outputFolder'') =
         config w (''codechecker.backend'', ''outputFolder'')"
  shows "getLogCmdLine (w\<lparr>config := c\<rparr>) = getLogCmdLine w"
  using assms
  by (cases "workspaceFolders w")
     (simp_all add: getLogCmdLine_def executablePath_def outputFolder_def
        getConfigAndReplaceVariables_def Let_def split: option.splits)

text \<open>
  Claim C9. The setting \<open>codechecker.backend.compilationDatabasePath\<close> plays no part: with
  any value \<open>v\<close> written to it, \<open>updateDatabasePaths\<close> yields the same state (the setting
  itself apart), hence the same database paths, and \<open>getCompileCommandsPath\<close>,
  \<open>getAnalyzeCmdLine\<close> and \<open>getLogCmdLine\<close> return the same results and fire the same
  messages. The key \<open>updateDatabasePaths\<close> reads is \<open>databasePath\<close>.
\<close>

theorem compilationDatabasePath_ignored:
  "updateDatabasePaths
     (w\<lparr>config := (config w)((''codechecker.backend'', ''compilationDatabasePath'') := v)\<rparr>) =
   (updateDatabasePaths w)
     \<lparr>config := (config w)((''codechecker.backend'', ''compilationDatabasePath'') := v)\<rparr>
   \<and> databasePaths (updateDatabasePaths
        (w\<lparr>config := (config w)((''codechecker.backend'', ''compilationDatabasePath'') := v)\<rparr>)) =
     databasePaths (updateDatabasePaths w)
   \<and> fst (getCompileCommandsPath (updateDatabasePaths
        (w\<lparr>config := (config w)((''codechecker.backend'', ''compilationDatabasePath'') := v)\<rparr>))) =
     fst (getCompileCommandsPath (updateDatabasePaths w))
   \<and> bridgeMessages (snd (getCompileCommandsPath (updateDatabasePaths
        (w\<lparr>config := (config w)((''codechecker.backend'', ''compilationDatabasePath'') := v)\<rparr>)))) =
     bridgeMessages (snd (getCompileCommandsPath (updateDatabasePaths w)))
   \<and> fst (getCompileCommandsPath
        (w\<lparr>config := (config w)((''codechecker.backend'', ''compilationDatabasePath'') := v)\<rparr>)) =
     fst (getCompileCommandsPath w)
   \<and> fst (getAnalyzeCmdLine files
        (w\<lparr>config := (config w)((''codechecker.backend'', ''compilationDatabasePath'') := v)\<rparr>)) =
     fst (getAnalyzeCmdLine files w)
   \<and> getLogCmdLine
        (w\<lparr>config := (config w)((''codechecker.backend'', ''compilationDatabasePath'') := v)\<rparr>) =
     getLogCmdLine w"
proof -
  have u: "updateDatabasePaths
     (w\<lparr>config := (config w)((''codechecker.backend'', ''compilationDatabasePath'') := v)\<rparr>) =
   (updateDatabasePaths w)
     \<lparr>config := (config w)((''codechecker.backend'', ''compilationDatabasePath'') := v)\<rparr>"
    by (rule updateDatabasePaths_config) simp_all
  have a: "fst (getAnalyzeCmdLine files
        (w\<lparr>config := (config w)((''codechecker.backend'', ''compilationDatabasePath'') := v)\<rparr>)) =
     fst (getAnalyzeCmdLine files w)"
    by (rule getAnalyzeCmdLine_config) simp_all
  have l: "getLogCmdLine
        (w\<lparr>config := (config w)((''codechecker.backend'', ''compilationDatabasePath'') := v)\<rparr>) =
     getLogCmdLine w"
    by (rule getLogCmdLine_config) simp_all
  show ?thesis
    unfolding u by (simp add: a l getCompileCommandsPath_config)
qed

text \<open>
  Claim C10. Whatever the settings \<open>codechecker.executor.logBuildCommand\<close> and
  \<open>codechecker.executor.logArguments\<close> hold, \<open>getLogCmdLine\<close> returns \<open>undefined\<close> with no
  workspace folder, and otherwise the executable, \<open>log\<close>, the output path
  \<open>compile_commands.json\<close> joined to the output folder, and the build command \<open>make\<close>.
\<close>

theorem getLogCmdLine_fixed_build:
  "getLogCmdLine
     (w\<lparr>config := (config w)((''codechecker.executor'', ''logBuildCommand'') := b,
                             (''codechecker.executor'', ''logArguments'') := a)\<rparr>) =
   (case workspaceFolders w of
      [] \<Rightarrow> None
    | workspaceFolder # _ \<Rightarrow>
        Some (executablePath w @ '' log --output '' @
              quoted (pathJoin w (outputFolder w workspaceFolder) ''compile_commands.json'') @
              '' --build \"make\"''))"
proof -
  have "getLogCmdLine
     (w\<lparr>config := (config w)((''codechecker.executor'', ''logBuildCommand'') := b,
                             (''codechecker.executor'', ''logArguments'') := a)\<rparr>) =
     getLogCmdLine w"
    by (rule getLogCmdLine_config) simp_all
  then show ?thesis
    by (cases "workspaceFolders w") (simp_all add: getLogCmdLine_def Let_def quoted_def)
qed


text \<open>
  In the workspace \<open>/ws\<close> the database paths are the same with
  \<open>compilationDatabasePath\<close> set to \<open>/db.json\<close>; set under the key \<open>databasePath\<close>, the
  same value becomes the first database path.
\<close>

theorem compilationDatabasePath_ignored_witness:
  "databasePaths (updateDatabasePaths
     ((exampleWorld [''/ws''] [])
        \<lparr>config := (config (exampleWorld [''/ws''] []))
           ((''codechecker.backend'', ''compilationDatabasePath'') := Some (CString ''/db.json''))\<rparr>)) =
   databasePaths (updateDatabasePaths (exampleWorld [''/ws''] []))
   \<and> databasePaths (updateDatabasePaths (exampleWorld [''/ws''] [])) =
     [None, Some ''/ws/.codechecker/compile_commands.json'',
      Some ''/ws/.codechecker/compile_cmd.json'']
   \<and> databasePaths (updateDatabasePaths
     ((exampleWorld [''/ws''] [])
        \<lparr>config := (config (exampleWorld [''/ws''] []))
           ((''codechecker.backend'', ''databasePath'') := Some (CString ''/db.json''))\<rparr>)) =
     [Some ''/db.json'', Some ''/ws/.codechecker/compile_commands.json'',
      Some ''/ws/.codechecker/compile_cmd.json'']"
proof -
  have "databasePaths (updateDatabasePaths (exampleWorld [''/ws''] [])) =
     [None, Some ''/ws/.codechecker/compile_commands.json'',
      Some ''/ws/.codechecker/compile_cmd.json'']"
    by code_simp
  moreover have "databasePaths (updateDatabasePaths
     ((exampleWorld [''/ws''] [])
        \<lparr>config := (config (exampleWorld [''/ws''] []))
           ((''codechecker.backend'', ''databasePath'') := Some (CString ''/db.json''))\<rparr>)) =
     [Some ''/db.json'', Some ''/ws/.codechecker/compile_commands.json'',
      Some ''/ws/.codechecker/compile_cmd.json'']"
    by code_simp
  ultimately show ?thesis
    using compilationDatabasePath_ignored
      [of "exampleWorld [''/ws''] []" "Some (CString ''/db.json'')"]
    by simp
qed

text \<open>
  With the build command set to \<open>ninja\<close> the log command line still builds with \<open>make\<close>.
\<close>

theorem getLogCmdLine_fixed_build_witness:
  "getLogCmdLine
     ((exampleWorld [''/ws''] [])
       \<lparr>config := (config (exampleWorld [''/ws''] []))
          ((''codechecker.executor'', ''logBuildCommand'') := Some (CString ''ninja''),
           (''codechecker.executor'', ''logArguments'') := Some (CString ''--verbose''))\<rparr>) =
     Some ''CodeChecker log --output \"/ws/.codechecker/compile_commands.json\" --build \"make\"''
   \<and> getLogCmdLine
     ((exampleWorld [] [])
       \<lparr>config := (config (exampleWorld [] []))
          ((''codechecker.executor'', ''logBuildCommand'') := Some (CString ''ninja''),
           (''codechecker.executor'', ''logArguments'') := Some (CString ''--verbose''))\<rparr>) = None"
proof -
  have e: "workspaceFolders (exampleWorld [''/ws''] []) = [''/ws'']"
    "workspaceFolders (exampleWorld [] []) = []"
    "executablePath (exampleWorld [''/ws''] []) = ''CodeChecker''"
    "pathJoin (exampleWorld [''/ws''] [])
       (outputFolder (exampleWorld [''/ws''] []) ''/ws'') ''compile_commands.json'' =
     ''/ws/.codechecker/compile_commands.json''"
    by code_simp+
  show ?thesis
    using getLogCmdLine_fixed_build
      [of "exampleWorld [''/ws''] []" "Some (CString ''ninja'')" "Some (CString ''--verbose'')"]
      getLogCmdLine_fixed_build
      [of "exampleWorld [] []" "Some (CString ''ninja'')" "Some (CString ''--verbose'')"] e
    by (simp add: quoted_def)
qed

text \<open>
  After the constructor ran in the workspace \<open>/ws\<close>, the first watcher matches the first
  default database path; creating that file fires the event, and the next resolution finds
  the database.
\<close>

theorem databaseLocationChanged_fires_witness:
  "0 \<in> set (databaseWatches (runBridge (exampleWorld [''/ws''] []) []))
   \<and> watcherMatches (runBridge (exampleWorld [''/ws''] []) []) 0
       ''/ws/.codechecker/compile_commands.json''
   \<and> databaseLocationChanged (runBridge (exampleWorld [''/ws''] []) []) <
     databaseLocationChanged
       (fsEvent Created ''/ws/.codechecker/compile_commands.json''
          (runBridge (exampleWorld [''/ws''] []) []))
   \<and> fst (getCompileCommandsPath
       (fsEvent Created ''/ws/.codechecker/compile_commands.json''
          (runBridge (exampleWorld [''/ws''] []) []))) \<noteq> None"
proof -
  have h: "0 \<in> set (databaseWatches (runBridge (exampleWorld [''/ws''] []) []))"
    "watcherMatches (runBridge (exampleWorld [''/ws''] []) []) 0
       ''/ws/.codechecker/compile_commands.json''"
    by code_simp+
  have e: "workspaceFolders (runBridge (exampleWorld [''/ws''] []) []) \<noteq> []"
    "Some ''/ws/.codechecker/compile_commands.json''
       \<in> set (databasePaths (runBridge (exampleWorld [''/ws''] []) []))"
    by code_simp+
  show ?thesis
    using databaseLocationChanged_fires
      [OF refl h, of Created] h e
    by blast
qed

end
